theory Spec2Isabelle
  imports Complex_Main "HOL-Library.AList" "HOL-Library.Word"
begin

unbundle bit_operations_syntax

section \<open>Conventions of the embedding\<close>

text \<open>
  The TypeScript sources are embedded function by function.

  \<^item> A JavaScript \<open>number\<close> is held as the rational it denotes (\<open>rat\<close>). In the
    risk gate (\<open>canTrade\<close> and \<open>getTotalExposure\<close>), whose decision turns on it,
    the result of every arithmetic operation is rounded to binary64 as JavaScript
    rounds it (\<open>binary64\<close> below). Elsewhere arithmetic is exact and rounding is
    outside the model. Numbers that are not finite are outside the model: every
    theorem that evaluates a division uses a non-zero divisor (where JavaScript would
    give \<open>Infinity\<close> or \<open>NaN\<close>, HOL gives 0), and no amount has a magnitude of
    \<open>2^1024\<close>.
  \<^item> A \<open>bigint\<close> is an \<open>int\<close>; \<open>Number(b)\<close> of a bigint is \<open>of_int b\<close>.
  \<^item> A \<open>Map<string, V>\<close> is an association list in insertion order: \<open>get\<close> is
    \<open>map_of\<close>, \<open>set\<close> is \<open>AList.update\<close> (replace in place, or append), \<open>delete\<close> is
    \<open>AList.delete\<close>, \<open>size\<close> is \<open>length\<close>.
  \<^item> \<open>Date.now()\<close> and \<open>new Date()\<close> are a parameter \<open>now\<close> (milliseconds).
  \<^item> Events emitted on an \<open>EventEmitter\<close> are returned as a list, in emission order.
  \<^item> Console output is not modelled.
\<close>

type_synonym number = rat

subsection \<open>Rounding to binary64\<close>

text \<open>
  \<open>bitLength n\<close> is the number of binary digits of \<open>n > 0\<close>. \<open>exponentOf x\<close> is the
  exponent of the leading binary digit of \<open>x \<noteq> 0\<close>, the integer \<open>e\<close> with
  \<open>2^e \<le> |x| < 2^(e+1)\<close>: it is read off the integer part of \<open>|x|\<close>, or of
  \<open>1 / |x|\<close> when \<open>|x| < 1\<close>, and put right by one where \<open>1 / |x|\<close> is a power
  of two.
\<close>

function bitLength :: "int \<Rightarrow> nat" where
  "bitLength n = (if n \<le> 0 then 0 else Suc (bitLength (n div 2)))"
  by pat_completeness auto
termination
  by (relation "measure nat") auto

declare bitLength.simps [simp del]

definition exponentOf :: "rat \<Rightarrow> int" where
  "exponentOf x =
    (let a = \<bar>x\<bar>;
         e0 = (if a \<ge> 1 then int (bitLength \<lfloor>a\<rfloor>) - 1
               else - int (bitLength \<lfloor>1 / a\<rfloor>))
     in if 2 powi (e0 + 1) \<le> a then e0 + 1 else e0)"

definition roundHalfEven :: "rat \<Rightarrow> int" where
  "roundHalfEven x =
    (let f = \<lfloor>x\<rfloor>;
         r = x - of_int f
     in if r < 1 / 2 then f
        else if r > 1 / 2 then f + 1
        else if even f then f else f + 1)"

text \<open>
  The binary64 number nearest to \<open>x\<close>, ties to the even significand: a significand
  of 53 binary digits at the exponent of \<open>x\<close>, and multiples of \<open>2^-1074\<close> below
  \<open>2^-1022\<close>. (JavaScript gives \<open>Infinity\<close> where the result has a magnitude of
  \<open>2^1024\<close> or more.)
\<close>

definition binary64 :: "rat \<Rightarrow> rat" where
  "binary64 x =
    (if x = 0 then 0
     else
       let e = max (exponentOf x) (- 1022);
           ulp = 2 powi (e - 52)
       in of_int (roundHalfEven (x / ulp)) * ulp)"

section \<open>Position manager\<close>

datatype TradeDirection = Buy | Sell

record Position =
  tokenMint :: string
  symbol :: "string option"
  amount :: int
  entryPrice :: number
  totalCostUsdc :: number
  entryTime :: nat
  trades :: "string list"
  buyCount :: nat
  sellCount :: nat

record RiskLimits =
  maxPositionSizeUsdc :: number
  maxTotalExposureUsdc :: number
  maxOpenPositions :: number
  minUsdcReserve :: number

text \<open>The \<open>reason\<close> string of a \<open>TradeCheckResult\<close>, with the values it interpolates.\<close>

datatype Reason =
    BelowMinimumReserve number
  | PositionSizeLimitReached number number
  | TotalExposureLimitReached number number
  | MaxOpenPositionsReached nat number
  | NoPositionToSell

record CheckLimits =
  currentPositionSize :: number
  maxPositionSize :: number
  currentExposure :: number
  maxExposure :: number
  currentPositions :: nat
  maxPositions :: number

record TradeCheckResult =
  allowed :: bool
  reason :: "Reason option"
  limits :: "CheckLimits option"

datatype WarningType = PositionSizeWarning | TotalExposureWarning

datatype PositionEvent =
    POSITION_OPENED Position
  | POSITION_UPDATED Position
  | POSITION_CLOSED Position number number
  | LIMIT_WARNING WarningType number number number

record PositionManager =
  positions :: "(string \<times> Position) list"
  riskLimits :: RiskLimits

definition getPosition :: "PositionManager \<Rightarrow> string \<Rightarrow> Position option" where
  "getPosition pm mint = map_of (positions pm) mint"

definition getTotalExposure :: "PositionManager \<Rightarrow> number" where
  "getTotalExposure pm =
     foldl (\<lambda>sum pos. binary64 (sum + totalCostUsdc pos)) 0 (map snd (positions pm))"

definition rejected :: "Reason \<Rightarrow> CheckLimits option \<Rightarrow> TradeCheckResult" where
  "rejected r l = \<lparr>allowed = False, reason = Some r, limits = l\<rparr>"

definition canTrade ::
  "PositionManager \<Rightarrow> string \<Rightarrow> TradeDirection \<Rightarrow> number \<Rightarrow> number
     \<Rightarrow> TradeCheckResult \<times> PositionEvent list" where
  "canTrade pm mint direction amountUsdc currentUsdcBalance =
    (let position = getPosition pm mint;
         totalExposure = getTotalExposure pm;
         lim = riskLimits pm;
         currentPositionSize = (case position of Some p \<Rightarrow> totalCostUsdc p | None \<Rightarrow> 0);
         newPositionSize = binary64 (currentPositionSize + amountUsdc);
         newTotalExposure = binary64 (totalExposure + amountUsdc);
         info = (\<lambda>cur. Some \<lparr>currentPositionSize = cur,
                    maxPositionSize = maxPositionSizeUsdc lim,
                    currentExposure = totalExposure,
                    maxExposure = maxTotalExposureUsdc lim,
                    currentPositions = length (positions pm),
                    maxPositions = maxOpenPositions lim\<rparr>)
     in case direction of
       Buy \<Rightarrow>
         if binary64 (currentUsdcBalance - amountUsdc) < minUsdcReserve lim then
           (rejected (BelowMinimumReserve (minUsdcReserve lim)) None, [])
         else if newPositionSize > maxPositionSizeUsdc lim then
           (rejected (PositionSizeLimitReached newPositionSize (maxPositionSizeUsdc lim))
              (info currentPositionSize), [])
         else if newTotalExposure > maxTotalExposureUsdc lim then
           (rejected (TotalExposureLimitReached newTotalExposure (maxTotalExposureUsdc lim))
              (info currentPositionSize), [])
         else if position = None \<and> of_nat (length (positions pm)) \<ge> maxOpenPositions lim then
           (rejected (MaxOpenPositionsReached (length (positions pm)) (maxOpenPositions lim))
              (info 0), [])
         else
           (\<lparr>allowed = True, reason = None, limits = None\<rparr>,
            (if newPositionSize > binary64 (maxPositionSizeUsdc lim * binary64 (8 / 10))
             then [LIMIT_WARNING PositionSizeWarning newPositionSize (maxPositionSizeUsdc lim)
                     (binary64 (binary64 (newPositionSize / maxPositionSizeUsdc lim) * 100))]
             else []) @
            (if newTotalExposure > binary64 (maxTotalExposureUsdc lim * binary64 (8 / 10))
             then [LIMIT_WARNING TotalExposureWarning newTotalExposure (maxTotalExposureUsdc lim)
                     (binary64 (binary64 (newTotalExposure / maxTotalExposureUsdc lim) * 100))]
             else []))
     | Sell \<Rightarrow>
         if (case position of None \<Rightarrow> True | Some p \<Rightarrow> amount p = 0) then
           (rejected NoPositionToSell None, [])
         else (\<lparr>allowed = True, reason = None, limits = None\<rparr>, []))"

definition recordBuy ::
  "PositionManager \<Rightarrow> string \<Rightarrow> int \<Rightarrow> number \<Rightarrow> number \<Rightarrow> string \<Rightarrow> string option \<Rightarrow> nat
     \<Rightarrow> PositionManager \<times> PositionEvent list" where
  "recordBuy pm mint tokenAmount usdcSpent pricePerToken signature symb now =
    (case getPosition pm mint of
       Some existing \<Rightarrow>
         (let newAmount = amount existing + tokenAmount;
              newCost = totalCostUsdc existing + usdcSpent;
              updated = existing\<lparr>amount := newAmount,
                          totalCostUsdc := newCost,
                          entryPrice := newCost / of_int newAmount,
                          trades := trades existing @ [signature],
                          buyCount := buyCount existing + 1\<rparr>
          in (pm\<lparr>positions := AList.update mint updated (positions pm)\<rparr>,
              [POSITION_UPDATED updated]))
     | None \<Rightarrow>
         (let position = \<lparr>tokenMint = mint, symbol = symb, amount = tokenAmount,
                           entryPrice = pricePerToken, totalCostUsdc = usdcSpent,
                           entryTime = now, trades = [signature],
                           buyCount = 1, sellCount = 0\<rparr>
          in (pm\<lparr>positions := AList.update mint position (positions pm)\<rparr>,
              [POSITION_OPENED position])))"

text \<open>
  \<open>recordSell\<close> returns \<open>null\<close> (here \<open>None\<close>) without touching the ledger when there is
  no position or the sale exceeds it; otherwise the pair
  \<open>(realizedPnlUsdc, realizedPnlPercent)\<close>.
\<close>

definition recordSell ::
  "PositionManager \<Rightarrow> string \<Rightarrow> int \<Rightarrow> number \<Rightarrow> string
     \<Rightarrow> PositionManager \<times> PositionEvent list \<times> (number \<times> number) option" where
  "recordSell pm mint tokenAmount usdcReceived signature =
    (case getPosition pm mint of
       None \<Rightarrow> (pm, [], None)
     | Some position \<Rightarrow>
         (let newAmount = amount position - tokenAmount in
          if newAmount < 0 then (pm, [], None)
          else
            (let sellPercent = of_int tokenAmount / of_int (amount position);
                 costBasis = totalCostUsdc position * sellPercent;
                 realizedPnlUsdc = usdcReceived - costBasis;
                 realizedPnlPercent = (realizedPnlUsdc / costBasis) * 100;
                 updated = position\<lparr>amount := newAmount,
                             totalCostUsdc := totalCostUsdc position * (1 - sellPercent),
                             trades := trades position @ [signature],
                             sellCount := sellCount position + 1\<rparr>
             in if newAmount = 0 then
                  (pm\<lparr>positions := AList.delete mint (positions pm)\<rparr>,
                   [POSITION_CLOSED updated realizedPnlUsdc realizedPnlPercent],
                   Some (realizedPnlUsdc, realizedPnlPercent))
                else
                  (pm\<lparr>positions := AList.update mint updated (positions pm)\<rparr>,
                   [POSITION_UPDATED updated],
                   Some (realizedPnlUsdc, realizedPnlPercent)))))"

definition getPositions :: "PositionManager \<Rightarrow> Position list" where
  "getPositions pm = map snd (positions pm)"


subsection \<open>The copy engine's ledger update\<close>

text \<open>
  The part of \<open>CopyTradeEngine.processTrade\<close> that runs after a swap was sent without
  error and a position manager is attached: \<open>outAmount\<close> is the quote's out-amount
  (an integer string of raw units, here already an \<open>int\<close>), \<open>tradeAmountUsdc\<close> the
  configured copy size.
\<close>

definition processTrade_record ::
  "PositionManager \<Rightarrow> TradeDirection \<Rightarrow> string \<Rightarrow> number \<Rightarrow> int \<Rightarrow> string \<Rightarrow> nat
     \<Rightarrow> PositionManager \<times> PositionEvent list" where
  "processTrade_record pm direction mint tradeAmountUsdc outAmount signature now =
    (let tokenAmount = outAmount;
         usdcAmount = tradeAmountUsdc;
         pricePerToken = usdcAmount / of_int tokenAmount
     in case direction of
          Buy \<Rightarrow> recordBuy pm mint tokenAmount usdcAmount pricePerToken signature None now
        | Sell \<Rightarrow>
            (case recordSell pm mint tokenAmount usdcAmount signature of
               (pm', ev, _) \<Rightarrow> (pm', ev)))"

text \<open>The amount of a position in UI units, for a mint with the given number of decimals.\<close>

definition uiAmount :: "nat \<Rightarrow> Position \<Rightarrow> number" where
  "uiAmount decimals p = of_int (amount p) / 10 ^ decimals"

section \<open>Binary helpers\<close>

text \<open>
  A \<open>Uint8Array\<close> is a list of bytes. Reading it at an index at or beyond its length
  gives \<open>undefined\<close> in JavaScript, which the bitwise operators of \<open>readU32\<close> turn
  into 0; \<open>byteOr0\<close> is that read. \<open>slice\<close> clamps both ends to the array.
\<close>

type_synonym byte = "8 word"
type_synonym buffer = "byte list"

definition byteOr0 :: "buffer \<Rightarrow> nat \<Rightarrow> 32 word" where
  "byteOr0 buffer i = (if i < length buffer then ucast (buffer ! i) else 0)"

definition slice :: "buffer \<Rightarrow> nat \<Rightarrow> nat \<Rightarrow> buffer" where
  "slice buffer start end = take (end - start) (drop start buffer)"

text \<open>
  \<open>readU32\<close> works on 32-bit integers and ends with \<open>>>> 0\<close>, the unsigned reading;
  \<open>readU64\<close> combines two of them as bigints.
\<close>

definition readU32 :: "buffer \<Rightarrow> nat \<Rightarrow> nat" where
  "readU32 buffer offset =
     unat (byteOr0 buffer offset
           OR push_bit 8 (byteOr0 buffer (offset + 1))
           OR push_bit 16 (byteOr0 buffer (offset + 2))
           OR push_bit 24 (byteOr0 buffer (offset + 3)))"

definition readU64 :: "buffer \<Rightarrow> nat \<Rightarrow> nat" where
  "readU64 buffer offset =
     (let low = readU32 buffer offset;
          high = readU32 buffer (offset + 4)
      in low OR push_bit 32 high)"

text \<open>
  \<open>readCompactU16\<close> returns the pair (value, bytes consumed), and \<open>(0, 0)\<close> when the
  encoding runs off the buffer. Every read is guarded by a comparison with the length.
\<close>

definition readCompactU16 :: "buffer \<Rightarrow> nat \<Rightarrow> nat \<times> nat" where
  "readCompactU16 buffer offset =
    (if offset \<ge> length buffer then (0, 0)
     else
       let byte1 = unat (buffer ! offset) in
       if byte1 < 0x80 then (byte1, 1)
       else if offset + 1 \<ge> length buffer then (0, 0)
       else
         let byte2 = unat (buffer ! (offset + 1)) in
         if byte2 < 0x80 then ((byte1 AND 0x7f) OR push_bit 7 byte2, 2)
         else if offset + 2 \<ge> length buffer then (0, 0)
         else
           let byte3 = unat (buffer ! (offset + 2)) in
           ((byte1 AND 0x7f) OR push_bit 7 (byte2 AND 0x7f) OR push_bit 14 byte3, 3))"

section \<open>Wire-form measurement of a transaction\<close>

text \<open>
  The instruction loop of \<open>measureTransactionSize\<close> (the same in the versioned and the
  legacy branch): \<open>None\<close> is the \<open>return 0\<close> inside the loop, \<open>Some offset\<close> the offset
  after the last instruction.
\<close>

fun skipInstructions :: "buffer \<Rightarrow> nat \<Rightarrow> nat \<Rightarrow> nat option" where
  "skipInstructions buffer 0 offset = Some offset"
| "skipInstructions buffer (Suc n) offset =
    (if offset \<ge> length buffer then None
     else
       let offset1 = offset + 1;
           (numAccounts, accBytes) = readCompactU16 buffer offset1;
           offset2 = offset1 + accBytes + numAccounts;
           (dataLen, dataLenBytes) = readCompactU16 buffer offset2;
           offset3 = offset2 + dataLenBytes + dataLen
       in skipInstructions buffer n offset3)"

text \<open>The address-table-lookup loop of the versioned branch.\<close>

fun skipLookups :: "buffer \<Rightarrow> nat \<Rightarrow> nat \<Rightarrow> nat option" where
  "skipLookups buffer 0 offset = Some offset"
| "skipLookups buffer (Suc n) offset =
    (if offset + 32 > length buffer then None
     else
       let offset1 = offset + 32;
           (numWritable, wBytes) = readCompactU16 buffer offset1;
           offset2 = offset1 + wBytes + numWritable;
           (numReadonly, rBytes) = readCompactU16 buffer offset2;
           offset3 = offset2 + rBytes + numReadonly
       in skipLookups buffer n offset3)"

text \<open>
  The header, the account keys and the blockhash, common to both branches up to the
  position of the first byte: \<open>None\<close> is \<open>return 0\<close>.
\<close>

definition skipHeaderKeysBlockhash :: "buffer \<Rightarrow> nat \<Rightarrow> nat option" where
  "skipHeaderKeysBlockhash buffer offset =
    (if offset + 3 > length buffer then None
     else
       let offset1 = offset + 3;
           (numKeys, keyBytes) = readCompactU16 buffer offset1;
           offset2 = offset1 + keyBytes + numKeys * 32
       in if offset2 + 32 > length buffer then None else Some (offset2 + 32))"

definition measureTransactionSize :: "buffer \<Rightarrow> nat" where
  "measureTransactionSize buffer =
    (let (numSigs, sigBytes) = readCompactU16 buffer 0;
         offset = sigBytes
     in if numSigs = 0 \<or> numSigs > 64 then 0
        else
          let offset1 = offset + numSigs * 64 in
          if offset1 \<ge> length buffer then 0
          else
            let firstByte = buffer ! offset1 in
            if firstByte = 0x80 then
              (case skipHeaderKeysBlockhash buffer (offset1 + 1) of
                 None \<Rightarrow> 0
               | Some offset2 \<Rightarrow>
                   let (numInstructions, instrBytes) = readCompactU16 buffer offset2 in
                   (case skipInstructions buffer numInstructions (offset2 + instrBytes) of
                      None \<Rightarrow> 0
                    | Some offset3 \<Rightarrow>
                        let (numLookups, lookupBytes) = readCompactU16 buffer offset3 in
                        (case skipLookups buffer numLookups (offset3 + lookupBytes) of
                           None \<Rightarrow> 0
                         | Some offset4 \<Rightarrow> offset4)))
            else
              (case skipHeaderKeysBlockhash buffer offset1 of
                 None \<Rightarrow> 0
               | Some offset2 \<Rightarrow>
                   let (numInstructions, instrBytes) = readCompactU16 buffer offset2 in
                   (case skipInstructions buffer numInstructions (offset2 + instrBytes) of
                      None \<Rightarrow> 0
                    | Some offset3 \<Rightarrow> offset3)))"

section \<open>Entry decoder\<close>

text \<open>
  \<open>deserializeEntries\<close> wraps its body in \<open>try\<close>/\<open>catch\<close> and rethrows; the one
  \<open>throw\<close> of the body is the truncated transaction-count field. \<open>Number(u64)\<close> is
  exact below \<open>2^53\<close>; for larger counts both loops leave through the end of the buffer
  long before the count is reached, so the model keeps the exact count.
\<close>

datatype DeserializeError = CannotReadTransactionVecLength nat

record SolanaEntry =
  numHashes :: nat
  hash :: buffer
  transactions :: "buffer list"

text \<open>
  The inner loop over the transactions of one entry, from the loop counter's remaining
  range: both \<open>break\<close>s leave with the transactions read so far and the offset
  unchanged.
\<close>

fun readTransactions :: "buffer \<Rightarrow> nat \<Rightarrow> nat \<Rightarrow> buffer list \<Rightarrow> buffer list \<times> nat" where
  "readTransactions entriesBytes 0 offset txs = (txs, offset)"
| "readTransactions entriesBytes (Suc t) offset txs =
    (if offset \<ge> length entriesBytes then (txs, offset)
     else
       let remaining = drop offset entriesBytes;
           txSize = measureTransactionSize remaining
       in if txSize = 0 then (txs, offset)
          else readTransactions entriesBytes t (offset + txSize)
                 (txs @ [slice entriesBytes offset (offset + txSize)]))"

fun readEntries ::
  "buffer \<Rightarrow> nat \<Rightarrow> nat \<Rightarrow> SolanaEntry list \<Rightarrow> DeserializeError + SolanaEntry list" where
  "readEntries entriesBytes 0 offset entries = Inr entries"
| "readEntries entriesBytes (Suc i) offset entries =
    (let numHashes = readU64 entriesBytes offset;
         offset1 = offset + 8;
         hash = slice entriesBytes offset1 (offset1 + 32);
         offset2 = offset1 + 32
     in if offset2 + 8 > length entriesBytes then Inl (CannotReadTransactionVecLength offset2)
        else
          let txCount = readU64 entriesBytes offset2;
              offset3 = offset2 + 8;
              (txs, offset4) =
                (if txCount > 0 then readTransactions entriesBytes txCount offset3 []
                 else ([], offset3))
          in readEntries entriesBytes i offset4
               (entries @ [\<lparr>numHashes = numHashes, hash = hash, transactions = txs\<rparr>]))"

definition deserializeEntries :: "buffer \<Rightarrow> DeserializeError + SolanaEntry list" where
  "deserializeEntries entriesBytes = readEntries entriesBytes (readU64 entriesBytes 0) 8 []"

section \<open>Trade analyzer\<close>

subsection \<open>Constants\<close>

definition OKX_PROGRAM_ID :: string where
  "OKX_PROGRAM_ID = ''6m2CDdhRgxpH4WjvdzxAYbGxwdGUz5MziiL5jek2kBma''"

definition DFLOW_PROGRAM_ID :: string where
  "DFLOW_PROGRAM_ID = ''DF1ow4tspfHX9JwWJsAb9epbkA8hmpSEAtxXy1V27QBH''"

definition USDC_MINT :: string where
  "USDC_MINT = ''EPjFWdd5AufqSSqeM2qN1xzybapC8G4wEGGkZwyTDt1v''"

definition OKX_SWAP_DISCRIMINATORS :: "buffer list" where
  "OKX_SWAP_DISCRIMINATORS =
    [[248, 198, 158, 145, 225, 117, 135, 200],
     [19, 44, 130, 148, 72, 56, 44, 238],
     [30, 33, 208, 91, 31, 157, 37, 18],
     [81, 128, 134, 73, 114, 73, 45, 94],
     [96, 67, 12, 151, 129, 164, 18, 71],
     [235, 71, 211, 196, 114, 199, 143, 92],
     [69, 200, 254, 247, 40, 52, 118, 202],
     [69, 164, 210, 89, 146, 214, 173, 67],
     [240, 224, 38, 33, 176, 31, 241, 175],
     [14, 191, 44, 246, 142, 225, 224, 157],
     [236, 71, 155, 68, 198, 98, 14, 118],
     [63, 114, 246, 131, 51, 2, 247, 29]]"

definition DFLOW_SWAP_DISCRIMINATORS :: "buffer list" where
  "DFLOW_SWAP_DISCRIMINATORS =
    [[248, 198, 158, 145, 225, 117, 135, 200],
     [168, 172, 24, 77, 197, 156, 135, 101],
     [205, 77, 127, 108, 241, 32, 196, 195],
     [65, 75, 63, 76, 235, 91, 91, 136],
     [95, 123, 213, 246, 122, 1, 86, 231],
     [222, 100, 184, 146, 186, 196, 105, 165]]"

subsection \<open>Data\<close>

datatype Aggregator = okx | dflow | unknown

record CompiledInstruction =
  programIdIndex :: nat
  accountKeyIndexes :: "nat list"
  ixData :: buffer

record AddressTableLookup =
  accountKey :: string
  writableIndexes :: "nat list"
  readonlyIndexes :: "nat list"

record ParsedInstruction =
  programId :: string
  accounts :: "string list"
  data :: buffer

text \<open>
  The transaction object of a decoded transaction: a versioned message with its compiled
  instructions and lookups, or a legacy transaction whose instructions already name
  their program and accounts.
\<close>

datatype TransactionObject =
    Versioned "CompiledInstruction list" "AddressTableLookup list"
  | Legacy "ParsedInstruction list"

record DecodedTransaction =
  signature :: string
  transaction :: TransactionObject
  accountKeys :: "string list"
  slot :: nat
  isVersioned :: bool

text \<open>
  A token balance of the executed transaction's metadata. \<open>owner\<close> and \<open>uiTokenAmount\<close>
  are optional in the RPC's answer; \<open>tokenAmountRaw\<close> is the integer of the decimal string
  \<open>amount\<close> (what \<open>BigInt\<close> reads), \<open>tokenDecimals\<close> the field \<open>decimals\<close>.
\<close>

record UiTokenAmount =
  tokenAmountRaw :: int
  tokenDecimals :: nat

record TokenBalance =
  mint :: string
  owner :: "string option"
  uiTokenAmount :: "UiTokenAmount option"

record TransactionMeta =
  preTokenBalances :: "TokenBalance list"
  postTokenBalances :: "TokenBalance list"

record BalanceEntry =
  rawDelta :: int
  decimals :: nat

text \<open>
  A balance delta: \<open>delta\<close> in UI units, \<open>deltaRaw\<close> the raw delta (the source keeps
  its decimal string and reads it back with \<open>BigInt\<close>; the model keeps the integer).
\<close>

record BalanceDelta =
  deltaMint :: string
  delta :: number
  deltaRaw :: int
  deltaDecimals :: nat

record DetectedTrade =
  tradeSignature :: string
  tradeSlot :: nat
  direction :: TradeDirection
  tradeTokenMint :: string
  usdcAmount :: number
  tokenAmount :: int
  userAddress :: "string option"
  aggregator :: Aggregator
  detectedAt :: nat

subsection \<open>Strings of digits\<close>

text \<open>
  \<open>bigint.toString()\<close>, \<open>String.padStart\<close>, \<open>String.slice\<close> with its negative
  indices counted from the end (\<open>-0\<close> is the index 0), and \<open>parseFloat\<close> on the strings
  built below: an optional minus sign, digits, and optionally a point and digits. (A
  string with no digit at all would be \<open>NaN\<close>; none is built here.)
\<close>

definition digitChar :: "nat \<Rightarrow> char" where
  "digitChar d = ''0123456789'' ! d"

function natToString :: "nat \<Rightarrow> string" where
  "natToString n = (if n < 10 then [digitChar n] else natToString (n div 10) @ [digitChar (n mod 10)])"
  by pat_completeness auto
termination
  by (relation "measure id") auto

declare natToString.simps [simp del]

definition bigintToString :: "int \<Rightarrow> string" where
  "bigintToString i = (if i < 0 then CHR ''-'' # natToString (nat (- i)) else natToString (nat i))"

definition padStart :: "string \<Rightarrow> nat \<Rightarrow> char \<Rightarrow> string" where
  "padStart s targetLength c = replicate (targetLength - length s) c @ s"

definition relativeIndex :: "string \<Rightarrow> int \<Rightarrow> nat" where
  "relativeIndex s i =
     (if i < 0 then nat (max (int (length s) + i) 0) else min (nat i) (length s))"

definition sliceString :: "string \<Rightarrow> int \<Rightarrow> int \<Rightarrow> string" where
  "sliceString s start end =
     (let from = relativeIndex s start; to = relativeIndex s end
      in take (to - from) (drop from s))"

definition sliceStringFrom :: "string \<Rightarrow> int \<Rightarrow> string" where
  "sliceStringFrom s start = drop (relativeIndex s start) s"

definition isDigit :: "char \<Rightarrow> bool" where
  "isDigit c = ((48::nat) \<le> of_char c \<and> of_char c \<le> (57::nat))"

definition digitsValue :: "string \<Rightarrow> nat" where
  "digitsValue s = foldl (\<lambda>v c. 10 * v + (of_char c - 48)) 0 s"

definition parseFloat :: "string \<Rightarrow> number" where
  "parseFloat s =
    (let negative = (case s of [] \<Rightarrow> False | c # _ \<Rightarrow> c = CHR ''-'');
         body = (if negative then tl s else s);
         integerDigits = takeWhile isDigit body;
         rest = dropWhile isDigit body;
         fractionDigits = (case rest of [] \<Rightarrow> []
                           | c # r \<Rightarrow> if c = CHR ''.'' then takeWhile isDigit r else []);
         magnitude = of_nat (digitsValue integerDigits)
                     + of_nat (digitsValue fractionDigits) / 10 ^ length fractionDigits
     in if negative then - magnitude else magnitude)"

subsection \<open>Balance deltas\<close>

text \<open>
  The two loops of \<open>extractTokenBalanceDeltas\<close> over the pre and post balances of the
  user. A pre balance \<^emph>\<open>sets\<close> the entry of its mint; a post balance adds to it and
  keeps the decimals of the post balance unless they are 0.
\<close>

definition amountOf :: "TokenBalance \<Rightarrow> int" where
  "amountOf balance = (case uiTokenAmount balance of None \<Rightarrow> 0 | Some u \<Rightarrow> tokenAmountRaw u)"

definition decimalsOf :: "TokenBalance \<Rightarrow> nat" where
  "decimalsOf balance = (case uiTokenAmount balance of None \<Rightarrow> 0 | Some u \<Rightarrow> tokenDecimals u)"

fun subtractPre ::
  "string option \<Rightarrow> TokenBalance list \<Rightarrow> (string \<times> BalanceEntry) list
     \<Rightarrow> (string \<times> BalanceEntry) list" where
  "subtractPre user [] balanceMap = balanceMap"
| "subtractPre user (balance # pre) balanceMap =
     subtractPre user pre
       (if owner balance = user then
          AList.update (mint balance)
            \<lparr>rawDelta = - amountOf balance, decimals = decimalsOf balance\<rparr> balanceMap
        else balanceMap)"

fun addPost ::
  "string option \<Rightarrow> TokenBalance list \<Rightarrow> (string \<times> BalanceEntry) list
     \<Rightarrow> (string \<times> BalanceEntry) list" where
  "addPost user [] balanceMap = balanceMap"
| "addPost user (balance # post) balanceMap =
     addPost user post
       (if owner balance = user then
          (let current = (case map_of balanceMap (mint balance) of
                            Some c \<Rightarrow> c
                          | None \<Rightarrow> \<lparr>rawDelta = 0, decimals = decimalsOf balance\<rparr>)
           in AList.update (mint balance)
                \<lparr>rawDelta = rawDelta current + amountOf balance,
                 decimals = (if decimalsOf balance \<noteq> 0 then decimalsOf balance
                             else decimals current)\<rparr> balanceMap)
        else balanceMap)"

text \<open>The UI amount of a raw delta, by digit placement in its decimal string.\<close>

definition uiDeltaString :: "int \<Rightarrow> nat \<Rightarrow> string" where
  "uiDeltaString raw dec =
    (let rawDeltaStr = bigintToString raw;
         isNegative = (case rawDeltaStr of [] \<Rightarrow> False | c # _ \<Rightarrow> c = CHR ''-'');
         absRawDeltaStr = (if isNegative then sliceStringFrom rawDeltaStr 1 else rawDeltaStr);
         padded = padStart absRawDeltaStr (dec + 1) (CHR ''0'');
         integerPart = (let p = sliceString padded 0 (- int dec) in if p = [] then ''0'' else p);
         decimalPart = sliceStringFrom padded (- int dec)
     in (if isNegative then ''-'' else []) @ integerPart @ ''.'' @ decimalPart)"

definition toDelta :: "string \<times> BalanceEntry \<Rightarrow> BalanceDelta" where
  "toDelta e =
    (case e of (m, d) \<Rightarrow>
       \<lparr>deltaMint = m,
        delta = parseFloat (uiDeltaString (rawDelta d) (decimals d)),
        deltaRaw = rawDelta d,
        deltaDecimals = decimals d\<rparr>)"

definition extractTokenBalanceDeltas :: "TransactionMeta \<Rightarrow> string option \<Rightarrow> BalanceDelta list" where
  "extractTokenBalanceDeltas meta user =
    (let balanceMap = addPost user (postTokenBalances meta)
                        (subtractPre user (preTokenBalances meta) [])
     in filter (\<lambda>x. \<bar>delta x\<bar> > 1 / 1000000) (map toDelta balanceMap))"

subsection \<open>Classification and analysis\<close>

text \<open>
  The analyzer's collaborators. \<open>voteProgramId\<close> is the constant \<open>VOTE_PROGRAM_ID\<close>
  of \<open>constants/programs\<close>, which is not among the sources and is taken as a parameter.
  \<open>getAddressLookupTable\<close> is the RPC call for a lookup table (it can throw, answer
  without a value, or give the table's addresses); \<open>getParsedTransaction\<close> gives the
  metadata of the executed transaction, \<open>None\<close> when the call throws or gives \<open>null\<close>
  or a transaction without \<open>meta\<close>. The pause that spaces the RPC calls is not
  modelled.
\<close>

datatype LookupTableFetch = FetchThrows | FetchNoValue | FetchValue "string list"

record AnalyzerEnv =
  voteProgramId :: string
  getAddressLookupTable :: "string \<Rightarrow> LookupTableFetch"
  getParsedTransaction :: "string \<Rightarrow> TransactionMeta option"

record TradeAnalyzer =
  trackedUsers :: "string list"
  tradeCount :: nat
  aggregatorTradeCount :: nat
  lookupTableCache :: "(string \<times> string list) list"

datatype TradeEvent = TRADE DetectedTrade

definition addTrackedUser :: "TradeAnalyzer \<Rightarrow> string \<Rightarrow> TradeAnalyzer" where
  "addTrackedUser ta address =
     (if address \<in> set (trackedUsers ta) then ta
      else ta\<lparr>trackedUsers := trackedUsers ta @ [address]\<rparr>)"

definition removeTrackedUser :: "TradeAnalyzer \<Rightarrow> string \<Rightarrow> TradeAnalyzer" where
  "removeTrackedUser ta address = ta\<lparr>trackedUsers := removeAll address (trackedUsers ta)\<rparr>"

text \<open>\<open>keys[i] || ''\<close>: the empty string when the index is out of range.\<close>

definition keyAt :: "string list \<Rightarrow> nat \<Rightarrow> string" where
  "keyAt keys i = (if i < length keys then keys ! i else [])"

definition tableAddresses :: "string list \<Rightarrow> nat list \<Rightarrow> string list" where
  "tableAddresses addresses idxs =
     map (\<lambda>idx. addresses ! idx) (filter (\<lambda>idx. idx < length addresses) idxs)"

fun resolveLookups ::
  "AnalyzerEnv \<Rightarrow> AddressTableLookup list \<Rightarrow> (string \<times> string list) list \<Rightarrow> string list
     \<Rightarrow> string list \<times> (string \<times> string list) list" where
  "resolveLookups env [] cache fullKeys = (fullKeys, cache)"
| "resolveLookups env (lookup # lookups) cache fullKeys =
    (let tableKey = accountKey lookup;
         append = (\<lambda>addresses. fullKeys @ tableAddresses addresses (writableIndexes lookup)
                                   @ tableAddresses addresses (readonlyIndexes lookup))
     in case map_of cache tableKey of
          Some addresses \<Rightarrow> resolveLookups env lookups cache (append addresses)
        | None \<Rightarrow>
            (case getAddressLookupTable env tableKey of
               FetchThrows \<Rightarrow> resolveLookups env lookups cache fullKeys
             | FetchNoValue \<Rightarrow> resolveLookups env lookups cache fullKeys
             | FetchValue addresses \<Rightarrow>
                 resolveLookups env lookups (AList.update tableKey addresses cache)
                   (append addresses)))"

text \<open>
  \<open>resolveAccountKeys\<close>: \<open>None\<close> is the \<open>TypeError\<close> raised when a transaction
  flagged as versioned has no message.
\<close>

definition resolveAccountKeys ::
  "AnalyzerEnv \<Rightarrow> TradeAnalyzer \<Rightarrow> DecodedTransaction
     \<Rightarrow> (string list \<times> (string \<times> string list) list) option" where
  "resolveAccountKeys env ta decodedTx =
    (if \<not> isVersioned decodedTx then Some (accountKeys decodedTx, lookupTableCache ta)
     else case transaction decodedTx of
            Legacy _ \<Rightarrow> None
          | Versioned _ lookups \<Rightarrow>
              if lookups = [] then Some (accountKeys decodedTx, lookupTableCache ta)
              else Some (resolveLookups env lookups (lookupTableCache ta) (accountKeys decodedTx)))"

definition matchesDiscriminator :: "buffer \<Rightarrow> buffer list \<Rightarrow> bool" where
  "matchesDiscriminator d discriminators =
     (if length d < 8 then False
      else list_ex (\<lambda>discriminator. take 8 d = take 8 discriminator) discriminators)"

definition isDFlowSwapInstruction :: "buffer \<Rightarrow> bool" where
  "isDFlowSwapInstruction d = matchesDiscriminator d DFLOW_SWAP_DISCRIMINATORS"

definition isOkxSwapInstruction :: "buffer \<Rightarrow> bool" where
  "isOkxSwapInstruction d = matchesDiscriminator d OKX_SWAP_DISCRIMINATORS"

fun identifyAggregatorFromInstructions :: "ParsedInstruction list \<Rightarrow> Aggregator" where
  "identifyAggregatorFromInstructions [] = unknown"
| "identifyAggregatorFromInstructions (ix # instructions) =
    (if programId ix = OKX_PROGRAM_ID \<and> length (data ix) \<ge> 8 \<and> isOkxSwapInstruction (data ix)
     then okx
     else if programId ix = DFLOW_PROGRAM_ID \<and> length (data ix) \<ge> 8
             \<and> isDFlowSwapInstruction (data ix)
     then dflow
     else identifyAggregatorFromInstructions instructions)"

fun findTrackedUserFromKeys :: "string list \<Rightarrow> string list \<Rightarrow> string option" where
  "findTrackedUserFromKeys tracked [] = None"
| "findTrackedUserFromKeys tracked (address # keys) =
    (if address \<in> set tracked then Some address else findTrackedUserFromKeys tracked keys)"

definition getInstructions :: "TransactionObject \<Rightarrow> string list \<Rightarrow> ParsedInstruction list" where
  "getInstructions tx keys =
    (case tx of
       Versioned compiledInstructions _ \<Rightarrow>
         map (\<lambda>ix. \<lparr>programId = keyAt keys (programIdIndex ix),
                    accounts = map (keyAt keys) (accountKeyIndexes ix),
                    data = ixData ix\<rparr>) compiledInstructions
     | Legacy instructions \<Rightarrow> instructions)"

definition parseTradeDetailsFromBalanceDeltas ::
  "AnalyzerEnv \<Rightarrow> nat \<Rightarrow> DecodedTransaction \<Rightarrow> Aggregator \<Rightarrow> string option
     \<Rightarrow> DetectedTrade option" where
  "parseTradeDetailsFromBalanceDeltas env now decodedTx agg user =
    (case getParsedTransaction env (signature decodedTx) of
       None \<Rightarrow> None
     | Some meta \<Rightarrow>
         (let deltas = extractTokenBalanceDeltas meta user in
          if deltas = [] then None
          else
            case find (\<lambda>d. deltaMint d = USDC_MINT) deltas of
              None \<Rightarrow> None
            | Some usdcDelta \<Rightarrow>
                (case find (\<lambda>d. deltaMint d \<noteq> USDC_MINT) deltas of
                   None \<Rightarrow> None
                 | Some otherTokenDelta \<Rightarrow>
                     Some \<lparr>tradeSignature = signature decodedTx,
                           tradeSlot = slot decodedTx,
                           direction = (if delta usdcDelta > 0 then Sell else Buy),
                           tradeTokenMint = deltaMint otherTokenDelta,
                           usdcAmount = \<bar>delta usdcDelta\<bar>,
                           tokenAmount = \<bar>deltaRaw otherTokenDelta\<bar>,
                           userAddress = user,
                           aggregator = agg,
                           detectedAt = now\<rparr>)))"

definition parseTradeDetails ::
  "AnalyzerEnv \<Rightarrow> nat \<Rightarrow> DecodedTransaction \<Rightarrow> string option \<Rightarrow> string list
     \<Rightarrow> DetectedTrade option" where
  "parseTradeDetails env now decodedTx user fullAccountKeys =
    (let keysToUse = (if length fullAccountKeys > length (accountKeys decodedTx)
                      then fullAccountKeys else accountKeys decodedTx);
         instructions = getInstructions (transaction decodedTx) keysToUse;
         agg = identifyAggregatorFromInstructions instructions
     in if agg = unknown then None
        else parseTradeDetailsFromBalanceDeltas env now decodedTx agg user)"

text \<open>
  The keys against which \<open>analyzeTransaction\<close> looks for a tracked user: the resolved
  keys of a versioned transaction, the static keys otherwise or when resolution throws.
\<close>

definition resolvedKeys ::
  "AnalyzerEnv \<Rightarrow> TradeAnalyzer \<Rightarrow> DecodedTransaction
     \<Rightarrow> string list \<times> (string \<times> string list) list" where
  "resolvedKeys env ta decodedTx =
    (if isVersioned decodedTx then
       (case resolveAccountKeys env ta decodedTx of
          Some r \<Rightarrow> r
        | None \<Rightarrow> (accountKeys decodedTx, lookupTableCache ta))
     else (accountKeys decodedTx, lookupTableCache ta))"

text \<open>
  \<open>userAddress || decodedTx.accountKeys[0]\<close>: the tracked user found, or the first
  static key (\<open>undefined\<close>, here \<open>None\<close>, when there is none) if no user was found or
  the one found is the empty string.
\<close>

definition userOrFirstKey :: "string option \<Rightarrow> string list \<Rightarrow> string option" where
  "userOrFirstKey user keys =
    (if user = None \<or> user = Some [] then (case keys of [] \<Rightarrow> None | k # _ \<Rightarrow> Some k)
     else user)"

definition analyzeTransaction ::
  "AnalyzerEnv \<Rightarrow> nat \<Rightarrow> TradeAnalyzer \<Rightarrow> DecodedTransaction
     \<Rightarrow> TradeAnalyzer \<times> TradeEvent list" where
  "analyzeTransaction env now ta decodedTx =
    (if voteProgramId env \<in> set (accountKeys decodedTx) then (ta, [])
     else
       case resolvedKeys env ta decodedTx of (fullAccountKeys, cache) \<Rightarrow>
         let ta1 = ta\<lparr>lookupTableCache := cache\<rparr>;
             user = findTrackedUserFromKeys (trackedUsers ta) fullAccountKeys
         in if (user = None \<or> user = Some []) \<and> length (trackedUsers ta) > 0 then (ta1, [])
            else
              case parseTradeDetails env now decodedTx
                     (userOrFirstKey user (accountKeys decodedTx)) fullAccountKeys of
                None \<Rightarrow> (ta1, [])
              | Some trade \<Rightarrow>
                  (ta1\<lparr>aggregatorTradeCount := aggregatorTradeCount ta1 + 1,
                        tradeCount := tradeCount ta1 + 1\<rparr>,
                   [TRADE trade]))"

section \<open>Trade filter\<close>

record FilterConfig =
  enabled :: bool
  minLiquidityUsdc :: number
  maxPriceImpactPercent :: number
  minTokenAgeSeconds :: number
  min24hVolumeUsdc :: number
  maxRecentPumpPercent :: number
  whitelist :: "string list"

datatype FilterReason =
    whitelisted
  | LowLiquidity number number
  | TokenTooNew number number
  | Low24hVolume number number
  | HighPriceImpact number number
  | AlreadyPumped number number
  | filter_error

text \<open>The \<open>checks\<close> of a result: for each check made, its value and whether it passed.\<close>

record FilterChecks =
  liquidityCheck :: "(number \<times> bool) option"
  priceImpactCheck :: "(number \<times> bool) option"
  tokenAgeCheck :: "(number \<times> bool) option"
  volume24hCheck :: "(number \<times> bool) option"
  recentPumpCheck :: "(number \<times> bool) option"

record FilterResult =
  filterAllowed :: bool
  filterReason :: "FilterReason option"
  checks :: "FilterChecks option"

record PricePoint =
  price :: number
  timestamp :: int

record TokenMetadata =
  metaMint :: string
  liquidity :: number
  volume24h :: number
  tokenAge :: number
  lastPriceCheck :: int
  priceHistory :: "PricePoint list"
  lastUpdated :: int

definition METADATA_CACHE_TTL :: int where
  "METADATA_CACHE_TTL = 60000"

definition PRICE_HISTORY_WINDOW :: int where
  "PRICE_HISTORY_WINDOW = 300000"

text \<open>
  What the request to the metadata API comes to: the \<open>fetch\<close> or the decoding of its
  body throws, the status is not ok, the answer has no pair, or its first pair. The
  fields of a pair are optional; an absent \<open>pairCreatedAt\<close> makes the age \<open>NaN\<close>,
  which \<open>fetchTokenMetadata\<close> replaces by 0.
\<close>

record DexPair =
  liquidityUsd :: "number option"
  volumeH24 :: "number option"
  pairCreatedAt :: "int option"
  priceUsd :: "number option"

datatype DexScreenerResponse = RequestThrows | StatusNotOk nat | NoPairs | FirstPair DexPair

record DexData =
  dexLiquidity :: number
  dexVolume24h :: number
  dexTokenAge :: number
  dexPrice :: number

record TradeFilter =
  config :: FilterConfig
  metadataCache :: "(string \<times> TokenMetadata) list"

definition orZero :: "number option \<Rightarrow> number" where
  "orZero v = (case v of None \<Rightarrow> 0 | Some x \<Rightarrow> x)"

text \<open>
  \<open>fetchDexScreenerData\<close> catches every failure of the request and answers with the
  defaults, all 0.
\<close>

definition fetchDexScreenerData :: "(string \<Rightarrow> DexScreenerResponse) \<Rightarrow> int \<Rightarrow> string \<Rightarrow> DexData" where
  "fetchDexScreenerData api now tokenMintAddr =
    (case api tokenMintAddr of
       RequestThrows \<Rightarrow> \<lparr>dexLiquidity = 0, dexVolume24h = 0, dexTokenAge = 0, dexPrice = 0\<rparr>
     | StatusNotOk _ \<Rightarrow> \<lparr>dexLiquidity = 0, dexVolume24h = 0, dexTokenAge = 0, dexPrice = 0\<rparr>
     | NoPairs \<Rightarrow> \<lparr>dexLiquidity = 0, dexVolume24h = 0, dexTokenAge = 0, dexPrice = 0\<rparr>
     | FirstPair pair \<Rightarrow>
         \<lparr>dexLiquidity = orZero (liquidityUsd pair),
          dexVolume24h = orZero (volumeH24 pair),
          dexTokenAge = (case pairCreatedAt pair of
                           None \<Rightarrow> 0
                         | Some created \<Rightarrow> of_int ((now - created) div 1000)),
          dexPrice = orZero (priceUsd pair)\<rparr>)"

definition fetchTokenMetadata :: "(string \<Rightarrow> DexScreenerResponse) \<Rightarrow> int \<Rightarrow> string \<Rightarrow> TokenMetadata" where
  "fetchTokenMetadata api now tokenMintAddr =
    (let dexData = fetchDexScreenerData api now tokenMintAddr
     in \<lparr>metaMint = tokenMintAddr,
         liquidity = dexLiquidity dexData,
         volume24h = dexVolume24h dexData,
         tokenAge = dexTokenAge dexData,
         lastPriceCheck = now,
         priceHistory = [\<lparr>price = dexPrice dexData, timestamp = now\<rparr>],
         lastUpdated = now\<rparr>)"

definition getTokenMetadata ::
  "(string \<Rightarrow> DexScreenerResponse) \<Rightarrow> int \<Rightarrow> TradeFilter \<Rightarrow> string
     \<Rightarrow> TokenMetadata \<times> TradeFilter" where
  "getTokenMetadata api now tf tokenMintAddr =
    (case map_of (metadataCache tf) tokenMintAddr of
       Some cached \<Rightarrow>
         if now - lastUpdated cached < METADATA_CACHE_TTL then (cached, tf)
         else (let metadata = fetchTokenMetadata api now tokenMintAddr
               in (metadata, tf\<lparr>metadataCache :=
                                 AList.update tokenMintAddr metadata (metadataCache tf)\<rparr>))
     | None \<Rightarrow>
         (let metadata = fetchTokenMetadata api now tokenMintAddr
          in (metadata, tf\<lparr>metadataCache :=
                            AList.update tokenMintAddr metadata (metadataCache tf)\<rparr>)))"

definition estimatePriceImpact :: "TradeFilter \<Rightarrow> string \<Rightarrow> number \<Rightarrow> number" where
  "estimatePriceImpact tf tokenMintAddr amountUsdc =
    (case map_of (metadataCache tf) tokenMintAddr of
       None \<Rightarrow> 0
     | Some metadata \<Rightarrow>
         if liquidity metadata = 0 then 0
         else min ((amountUsdc / liquidity metadata) * 100) 100)"

definition detectRecentPump :: "int \<Rightarrow> TokenMetadata \<Rightarrow> number" where
  "detectRecentPump now metadata =
    (let fiveMinutesAgo = now - PRICE_HISTORY_WINDOW;
         recentPrices = filter (\<lambda>p. timestamp p \<ge> fiveMinutesAgo) (priceHistory metadata)
     in if length recentPrices < 2 then 0
        else
          let oldestPrice = price (hd recentPrices);
              newestPrice = price (last recentPrices)
          in if oldestPrice = 0 then 0
             else max (((newestPrice / oldestPrice) - 1) * 100) 0)"

definition noChecks :: FilterChecks where
  "noChecks = \<lparr>liquidityCheck = None, priceImpactCheck = None, tokenAgeCheck = None,
               volume24hCheck = None, recentPumpCheck = None\<rparr>"

text \<open>
  \<open>shouldCopyTrade\<close> for the mint of a trade. Its \<open>try\<close> block calls
  \<open>getTokenMetadata\<close>, \<open>estimatePriceImpact\<close> and \<open>detectRecentPump\<close>, none of which
  throws (the request's failures are caught in \<open>fetchDexScreenerData\<close>), so the
  \<open>catch\<close> branch that answers \<open>filter_error\<close> is not reached.
\<close>

definition shouldCopyTrade ::
  "(string \<Rightarrow> DexScreenerResponse) \<Rightarrow> int \<Rightarrow> TradeFilter \<Rightarrow> string \<Rightarrow> number
     \<Rightarrow> FilterResult \<times> TradeFilter" where
  "shouldCopyTrade api now tf tokenMintAddr tradeAmountUsdc =
    (let cfg = config tf in
     if \<not> enabled cfg then
       (\<lparr>filterAllowed = True, filterReason = None, checks = None\<rparr>, tf)
     else if tokenMintAddr \<in> set (whitelist cfg) then
       (\<lparr>filterAllowed = True, filterReason = Some whitelisted, checks = None\<rparr>, tf)
     else
       case getTokenMetadata api now tf tokenMintAddr of (metadata, tf1) \<Rightarrow>
       if liquidity metadata < minLiquidityUsdc cfg then
         (\<lparr>filterAllowed = False,
           filterReason = Some (LowLiquidity (liquidity metadata) (minLiquidityUsdc cfg)),
           checks = Some (noChecks\<lparr>liquidityCheck := Some (liquidity metadata, False)\<rparr>)\<rparr>, tf1)
       else
       let checks1 = noChecks\<lparr>liquidityCheck := Some (liquidity metadata, True)\<rparr> in
       if tokenAge metadata < minTokenAgeSeconds cfg then
         (\<lparr>filterAllowed = False,
           filterReason = Some (TokenTooNew (of_int \<lfloor>tokenAge metadata / 60\<rfloor>)
                                  (of_int \<lfloor>minTokenAgeSeconds cfg / 60\<rfloor>)),
           checks = Some (checks1\<lparr>tokenAgeCheck := Some (tokenAge metadata, False)\<rparr>)\<rparr>, tf1)
       else
       let checks2 = checks1\<lparr>tokenAgeCheck := Some (tokenAge metadata, True)\<rparr> in
       if volume24h metadata < min24hVolumeUsdc cfg then
         (\<lparr>filterAllowed = False,
           filterReason = Some (Low24hVolume (volume24h metadata) (min24hVolumeUsdc cfg)),
           checks = Some (checks2\<lparr>volume24hCheck := Some (volume24h metadata, False)\<rparr>)\<rparr>, tf1)
       else
       let checks3 = checks2\<lparr>volume24hCheck := Some (volume24h metadata, True)\<rparr>;
           priceImpact = estimatePriceImpact tf1 tokenMintAddr tradeAmountUsdc in
       if priceImpact > maxPriceImpactPercent cfg then
         (\<lparr>filterAllowed = False,
           filterReason = Some (HighPriceImpact priceImpact (maxPriceImpactPercent cfg)),
           checks = Some (checks3\<lparr>priceImpactCheck := Some (priceImpact, False)\<rparr>)\<rparr>, tf1)
       else
       let checks4 = checks3\<lparr>priceImpactCheck := Some (priceImpact, True)\<rparr>;
           recentPump = detectRecentPump now metadata in
       if recentPump > maxRecentPumpPercent cfg then
         (\<lparr>filterAllowed = False,
           filterReason = Some (AlreadyPumped recentPump (maxRecentPumpPercent cfg)),
           checks = Some (checks4\<lparr>recentPumpCheck := Some (recentPump, False)\<rparr>)\<rparr>, tf1)
       else
         (\<lparr>filterAllowed = True, filterReason = None,
           checks = Some (checks4\<lparr>recentPumpCheck := Some (recentPump, True)\<rparr>)\<rparr>, tf1))"

section \<open>Pre-built transactions in the buy path\<close>

record QuoteResult =
  inputMint :: string
  outputMint :: string
  inAmount :: int
  outAmount :: int

record PreBuiltTransaction =
  signedTransaction :: buffer
  preBuiltSignature :: string
  quote :: QuoteResult
  blockhash :: string
  createdAt :: int
  expiresAt :: int

record SwapResult =
  swapSignature :: string
  swapInputMint :: string
  swapOutputMint :: string
  swapInAmount :: int
  swapOutAmount :: int
  confirmed :: bool

text \<open>
  \<open>buyToken\<close> is an \<open>async\<close> function: it runs without interruption up to an
  \<open>await\<close>, where other calls and timers run before it resumes. A call is modelled
  by its position between the \<open>await\<close>s of the fast path:
  \<^item> \<open>buyToken_begin\<close> is the code up to \<open>await this.sendPreBuiltTransaction(cached)\<close>:
    the lookup \<open>txCache.get\<close> and the expiry test; the call then waits for the send
    with the entry it read, or leaves for the on-demand path;
  \<^item> \<open>buyToken_resume\<close> is the code after that \<open>await\<close>: on success
    \<open>txCache.delete\<close> and the result built from the entry's quote, with the entry's
    signature; on failure \<open>txCache.delete\<close> and the on-demand path.
  The on-demand path (quote, build, sign, send) and the background rebuild are outside
  the model.
\<close>

datatype BuyTokenCall =
    NotStarted string number
  | AwaitingPreBuiltSend string number PreBuiltTransaction
  | OnDemand string number
  | Returned SwapResult

datatype SendOutcome = SendResolves | SendRejects

definition buyToken_begin ::
  "int \<Rightarrow> (string \<times> PreBuiltTransaction) list \<Rightarrow> BuyTokenCall \<Rightarrow> BuyTokenCall" where
  "buyToken_begin now txCache call =
    (case call of
       NotStarted tokenMintAddr usdc \<Rightarrow>
         (case map_of txCache tokenMintAddr of
            Some cached \<Rightarrow>
              if now < expiresAt cached then AwaitingPreBuiltSend tokenMintAddr usdc cached
              else OnDemand tokenMintAddr usdc
          | None \<Rightarrow> OnDemand tokenMintAddr usdc)
     | _ \<Rightarrow> call)"

definition buyToken_resume ::
  "SendOutcome \<Rightarrow> (string \<times> PreBuiltTransaction) list \<Rightarrow> BuyTokenCall
     \<Rightarrow> (string \<times> PreBuiltTransaction) list \<times> BuyTokenCall" where
  "buyToken_resume outcome txCache call =
    (case call of
       AwaitingPreBuiltSend tokenMintAddr usdc cached \<Rightarrow>
         (case outcome of
            SendResolves \<Rightarrow>
              (AList.delete tokenMintAddr txCache,
               Returned \<lparr>swapSignature = preBuiltSignature cached,
                          swapInputMint = inputMint (quote cached),
                          swapOutputMint = outputMint (quote cached),
                          swapInAmount = inAmount (quote cached),
                          swapOutAmount = outAmount (quote cached),
                          confirmed = False\<rparr>)
          | SendRejects \<Rightarrow> (AList.delete tokenMintAddr txCache, OnDemand tokenMintAddr usdc))
     | _ \<Rightarrow> (txCache, call))"

text \<open>
  The event loop runs one step of one call at a time: \<open>Begin i now\<close> starts call
  \<open>i\<close>, \<open>SendDone i outcome\<close> resumes it when its send has settled.
\<close>

datatype LoopStep = Begin nat int | SendDone nat SendOutcome

record Executor =
  txCache :: "(string \<times> PreBuiltTransaction) list"
  calls :: "BuyTokenCall list"

definition loopStep :: "Executor \<Rightarrow> LoopStep \<Rightarrow> Executor" where
  "loopStep ex step =
    (case step of
       Begin i now \<Rightarrow>
         if i < length (calls ex)
         then ex\<lparr>calls := (calls ex)[i := buyToken_begin now (txCache ex) (calls ex ! i)]\<rparr>
         else ex
     | SendDone i outcome \<Rightarrow>
         if i < length (calls ex)
         then (case buyToken_resume outcome (txCache ex) (calls ex ! i) of
                 (cache, call) \<Rightarrow> ex\<lparr>txCache := cache, calls := (calls ex)[i := call]\<rparr>)
         else ex)"

definition runLoop :: "Executor \<Rightarrow> LoopStep list \<Rightarrow> Executor" where
  "runLoop ex steps = foldl loopStep ex steps"

text \<open>The pre-built entry a call has taken from the cache, if any.\<close>

definition takenEntry :: "BuyTokenCall \<Rightarrow> PreBuiltTransaction option" where
  "takenEntry call = (case call of AwaitingPreBuiltSend _ _ cached \<Rightarrow> Some cached | _ \<Rightarrow> None)"

section \<open>Exit manager\<close>

record TakeProfitTarget =
  profitPercent :: number
  sellPercent :: number




















subsection \<open>The ledger and the exit manager together\<close>





section \<open>Concrete inputs\<close>

text \<open>
  The numbers that the literals \<open>12.1\<close>, \<open>2.1\<close>, \<open>0.3\<close>, \<open>0.2\<close> and \<open>0.1\<close>
  denote in the code.
\<close>

definition double_12_1 :: number where "double_12_1 = binary64 (121 / 10)"

definition double_2_1 :: number where "double_2_1 = binary64 (21 / 10)"

definition double_0_3 :: number where "double_0_3 = binary64 (3 / 10)"

definition double_0_2 :: number where "double_0_2 = binary64 (2 / 10)"

definition double_0_1 :: number where "double_0_1 = binary64 (1 / 10)"

text \<open>
  An empty ledger with the default limits 50 / 200 / 10 and a given reserve; the ledger
  of the risk scenario, with a per-position limit of 4 and a reserve of 10; and a ledger
  with the default limits that holds four positions of 45 USDC each.
\<close>

definition reserveLedger :: "number \<Rightarrow> PositionManager" where
  "reserveLedger reserve =
     \<lparr>positions = [],
      riskLimits = \<lparr>maxPositionSizeUsdc = 50, maxTotalExposureUsdc = 200,
                     maxOpenPositions = 10, minUsdcReserve = reserve\<rparr>\<rparr>"

definition scenarioLedger :: PositionManager where
  "scenarioLedger =
     \<lparr>positions = [],
      riskLimits = \<lparr>maxPositionSizeUsdc = 4, maxTotalExposureUsdc = 200,
                     maxOpenPositions = 10, minUsdcReserve = 10\<rparr>\<rparr>"

definition holding :: "string \<Rightarrow> number \<Rightarrow> Position" where
  "holding name cost =
     \<lparr>tokenMint = name, symbol = None, amount = 1000, entryPrice = cost / 1000,
      totalCostUsdc = cost, entryTime = 0, trades = [''buy''], buyCount = 1,
      sellCount = 0\<rparr>"

definition fourHoldings :: PositionManager where
  "fourHoldings =
     \<lparr>positions = [(''A'', holding ''A'' 45), (''B'', holding ''B'' 45),
                   (''C'', holding ''C'' 45), (''D'', holding ''D'' 45)],
      riskLimits = \<lparr>maxPositionSizeUsdc = 50, maxTotalExposureUsdc = 200,
                     maxOpenPositions = 10, minUsdcReserve = 10\<rparr>\<rparr>"

text \<open>
  The versioned transaction of the unit tests (one signature, the version byte, a
  header, one static key, a blockhash, no instruction, no lookup), and a legacy
  transaction cut short: one signature, a header, no account key, a blockhash,
  one instruction whose account count 5 is the last byte of the buffer.
\<close>

definition minimalVersionedTx :: buffer where
  "minimalVersionedTx = [1] @ replicate 64 0 @ [0x80, 1, 0, 0, 1] @ replicate 32 0
                          @ replicate 32 0 @ [0, 0]"

definition truncatedLegacyTx :: buffer where
  "truncatedLegacyTx = [1] @ replicate 64 0 @ [0, 0, 0, 0] @ replicate 32 0 @ [1, 0, 5]"

text \<open>
  A slot payload of one entry (7 hashes, a hash of \<open>0xAA\<close> bytes) that announces one
  transaction and holds the single byte 0 for it: a signature count of 0, for which
  the measurement answers 0.
\<close>

definition zeroScanPayload :: buffer where
  "zeroScanPayload = [1, 0, 0, 0, 0, 0, 0, 0] @ [7, 0, 0, 0, 0, 0, 0, 0] @ replicate 32 0xAA
                       @ [1, 0, 0, 0, 0, 0, 0, 0] @ [0]"

text \<open>A payload that announces one entry and ends there.\<close>

definition truncatedPayload :: buffer where
  "truncatedPayload = [1, 0, 0, 0, 0, 0, 0, 0]"

text \<open>
  A legacy transaction of the wallet \<open>Trader\<close> with one instruction for the DFlow
  program that starts with the \<open>swap\<close> discriminator, and the metadata of its execution:
  the wallet's USDC balance goes from 2.05 to 0 and its balance of the token \<open>Moon\<close>
  from nothing to 46672314888 raw units.
\<close>

definition swapTx :: DecodedTransaction where
  "swapTx = \<lparr>signature = ''sig1'',
             transaction = Legacy [\<lparr>programId = DFLOW_PROGRAM_ID, accounts = [],
                                    data = [248, 198, 158, 145, 225, 117, 135, 200, 0]\<rparr>],
             accountKeys = [''Trader'', DFLOW_PROGRAM_ID],
             slot = 1,
             isVersioned = False\<rparr>"

definition swapMeta :: TransactionMeta where
  "swapMeta =
    \<lparr>preTokenBalances =
       [\<lparr>mint = USDC_MINT, owner = Some ''Trader'',
         uiTokenAmount = Some \<lparr>tokenAmountRaw = 2050000, tokenDecimals = 6\<rparr>\<rparr>],
     postTokenBalances =
       [\<lparr>mint = USDC_MINT, owner = Some ''Trader'',
         uiTokenAmount = Some \<lparr>tokenAmountRaw = 0, tokenDecimals = 6\<rparr>\<rparr>,
        \<lparr>mint = ''Moon'', owner = Some ''Trader'',
         uiTokenAmount = Some \<lparr>tokenAmountRaw = 46672314888, tokenDecimals = 6\<rparr>\<rparr>]\<rparr>"

definition swapEnv :: AnalyzerEnv where
  "swapEnv = \<lparr>voteProgramId = ''Vote111111111111111111111111111111111111111'',
              getAddressLookupTable = (\<lambda>_. FetchNoValue),
              getParsedTransaction = (\<lambda>_. Some swapMeta)\<rparr>"

definition analyzerWatching :: "string list \<Rightarrow> TradeAnalyzer" where
  "analyzerWatching users =
     \<lparr>trackedUsers = users, tradeCount = 0, aggregatorTradeCount = 0, lookupTableCache = []\<rparr>"

text \<open>
  The metadata of a transaction after which the wallet \<open>Trader\<close> holds 5 units of the
  token \<open>Ticket\<close>, a mint with 0 decimals, and held none before.
\<close>

definition ticketMeta :: TransactionMeta where
  "ticketMeta =
    \<lparr>preTokenBalances = [],
     postTokenBalances =
       [\<lparr>mint = ''Ticket'', owner = Some ''Trader'',
         uiTokenAmount = Some \<lparr>tokenAmountRaw = 5, tokenDecimals = 0\<rparr>\<rparr>]\<rparr>"

text \<open>
  A filter with the default limits, nothing whitelisted and an empty cache, and a
  metadata API whose requests all fail.
\<close>

definition defaultFilter :: TradeFilter where
  "defaultFilter =
    \<lparr>config = \<lparr>enabled = True, minLiquidityUsdc = 50000, maxPriceImpactPercent = 2,
                minTokenAgeSeconds = 3600, min24hVolumeUsdc = 10000,
                maxRecentPumpPercent = 50, whitelist = []\<rparr>,
     metadataCache = []\<rparr>"

definition failingApi :: "string \<Rightarrow> DexScreenerResponse" where
  "failingApi = (\<lambda>_. RequestThrows)"

text \<open>
  An executor whose cache holds one pre-built buy of the token \<open>Moon\<close>, valid until
  45000, and two calls of \<open>buyToken\<close> for that token that have not started.
\<close>

definition moonEntry :: PreBuiltTransaction where
  "moonEntry =
    \<lparr>signedTransaction = [1, 2, 3], preBuiltSignature = ''presigned1'',
     quote = \<lparr>inputMint = USDC_MINT, outputMint = ''Moon'', inAmount = 2000000,
              outAmount = 46672314888\<rparr>,
     blockhash = ''blockhash1'', createdAt = 0, expiresAt = 45000\<rparr>"

definition twoBuys :: Executor where
  "twoBuys = \<lparr>txCache = [(''Moon'', moonEntry)],
              calls = [NotStarted ''Moon'' 2, NotStarted ''Moon'' 2]\<rparr>"








section \<open>Properties of the position ledger\<close>

lemma riskLimits_recordBuy:
  "riskLimits (fst (recordBuy pm m a c p s y n)) = riskLimits pm"
  by (simp add: recordBuy_def Let_def split: option.splits)

text \<open>
  \<open>binary64\<close> at some numbers, among them the ties \<open>2^53 + 1\<close> and \<open>2^53 + 3\<close>
  between two neighbours; the values are the ones JavaScript holds for these literals.
\<close>

lemma binary64_values:
  "binary64 (1 / 10) = 3602879701896397 / 36028797018963968"
  "binary64 (2 / 10) = 3602879701896397 / 18014398509481984"
  "binary64 (3 / 10) = 5404319552844595 / 18014398509481984"
  "binary64 (121 / 10) = 6811694436397875 / 562949953421312"
  "binary64 (- (21 / 10)) = - (4728779608739021 / 2251799813685248)"
  "binary64 (1 / 3) = 6004799503160661 / 18014398509481984"
  "binary64 (1 / 1000000000) = 4835703278458517 / 4835703278458516698824704"
  "binary64 (1 / 1024) = 1 / 1024"
  "binary64 (2 ^ 53 + 1) = 2 ^ 53"
  "binary64 (2 ^ 53 + 3) = 2 ^ 53 + 4"
  by code_simp+

lemma binary64_amounts:
  "binary64 2 = 2" "binary64 4 = 4" "binary64 6 = 6" "binary64 25 = 25"
  "binary64 45 = 45" "binary64 90 = 90" "binary64 135 = 135" "binary64 180 = 180"
  "binary64 205 = 205" "binary64 975 = 975"
  by code_simp+

text \<open>
  The differences that the code computes at two inputs: \<open>0.3 - 0.1\<close> is below
  \<open>0.2\<close>, and \<open>12.1 - 2.1\<close> is 10 although the two numbers are less than 10 apart.
\<close>

lemma double_differences:
  "binary64 (double_0_3 - double_0_1) < double_0_2"
  "binary64 (double_12_1 - double_2_1) = 10"
  "double_12_1 - double_2_1 < 10"
  "binary64 double_2_1 \<le> 50"
  unfolding double_0_3_def double_0_2_def double_0_1_def double_12_1_def double_2_1_def
  by code_simp+

text \<open>
  The total exposure is the sum of the costs of the positions, added in the order of the
  map and rounded after each addition.
\<close>

lemma getTotalExposure_fold:
  "getTotalExposure pm =
     foldl (\<lambda>sum c. binary64 (sum + c)) 0 (map (\<lambda>(k, p). totalCostUsdc p) (positions pm))"
  by (simp add: getTotalExposure_def foldl_map case_prod_unfold)

lemma getTotalExposure_fourHoldings:
  "getTotalExposure fourHoldings = 180"
  by (simp add: getTotalExposure_def fourHoldings_def holding_def binary64_amounts)

text \<open>
  C6, as the claim states it, fails where the difference or a sum is not a binary64
  number, since the code compares the rounded result. On an empty ledger with the
  default limits and a reserve of 0.2, a buy of 0.1 with balance 0.3 leaves exactly the
  reserve and violates no limit, and the code rejects it for the reserve. With a
  reserve of 10, the numbers that 12.1 and 2.1 denote are less than 10 apart, and the
  code allows the buy of 2.1 with balance 12.1.
\<close>

theorem canTrade_exact_difference_counterexample:
  "(\<not> ((3 / 10 :: rat) - 1 / 10 < 2 / 10)
    \<and> \<not> ((0 :: rat) + 1 / 10 > maxPositionSizeUsdc (riskLimits (reserveLedger double_0_2)))
    \<and> \<not> ((0 :: rat) + 1 / 10 > maxTotalExposureUsdc (riskLimits (reserveLedger double_0_2)))
    \<and> positions (reserveLedger double_0_2) = []
    \<and> \<not> (of_nat (length (positions (reserveLedger double_0_2)))
           \<ge> maxOpenPositions (riskLimits (reserveLedger double_0_2)))
    \<and> canTrade (reserveLedger double_0_2) ''M'' Buy double_0_1 double_0_3 =
        (\<lparr>allowed = False, reason = Some (BelowMinimumReserve double_0_2), limits = None\<rparr>,
         []))
   \<and> (double_12_1 - double_2_1 < minUsdcReserve (riskLimits (reserveLedger 10))
    \<and> allowed (fst (canTrade (reserveLedger 10) ''M'' Buy double_2_1 double_12_1)))"
proof -
  have a: "canTrade (reserveLedger double_0_2) ''M'' Buy double_0_1 double_0_3 =
        (\<lparr>allowed = False, reason = Some (BelowMinimumReserve double_0_2), limits = None\<rparr>,
         [])"
    using double_differences(1)
    by (simp add: canTrade_def rejected_def Let_def reserveLedger_def)
  have b: "allowed (fst (canTrade (reserveLedger 10) ''M'' Buy double_2_1 double_12_1))"
    using double_differences(2,4)
    by (simp add: canTrade_def rejected_def Let_def reserveLedger_def getPosition_def
        getTotalExposure_def)
  have c: "double_12_1 - double_2_1 < minUsdcReserve (riskLimits (reserveLedger 10))"
    using double_differences(3) by (simp add: reserveLedger_def)
  show ?thesis
    using a b c by (simp add: reserveLedger_def)
qed

text \<open>
  C6, amended. With every sum and difference rounded to binary64, as the code computes
  them, \<open>canTrade\<close> rejects a buy exactly when one of the four limits is violated: the
  balance less the amount is below the reserve; the cost of the mint's position (0 when
  it has none) plus the amount exceeds the per-position limit; the total exposure (the
  costs of all positions, added in the order of the map) plus the amount exceeds the
  exposure limit; or the mint has no position and the number of open positions has
  reached the maximum. The reserve is checked first: whenever it is violated the result
  is the minimum-reserve rejection, whatever the other limits say. In particular, with
  a per-position limit of 4 and a reserve of 10, after two buys of 2 USDC on a mint a
  third buy of 2 with balance 8 is rejected for the reserve, although the per-position
  limit is violated too.
\<close>

theorem canTrade_buy_decision_rounded:
  "(\<not> allowed (fst (canTrade pm m Buy amountUsdc balance)) \<longleftrightarrow>
       binary64 (balance - amountUsdc) < minUsdcReserve (riskLimits pm)
     \<or> binary64 ((case map_of (positions pm) m of Some p \<Rightarrow> totalCostUsdc p | None \<Rightarrow> 0)
                   + amountUsdc)
          > maxPositionSizeUsdc (riskLimits pm)
     \<or> binary64 (foldl (\<lambda>sum c. binary64 (sum + c)) 0
                     (map (\<lambda>(k, p). totalCostUsdc p) (positions pm))
                   + amountUsdc)
          > maxTotalExposureUsdc (riskLimits pm)
     \<or> (map_of (positions pm) m = None
          \<and> of_nat (length (positions pm)) \<ge> maxOpenPositions (riskLimits pm)))
   \<and> (binary64 (balance - amountUsdc) < minUsdcReserve (riskLimits pm) \<longrightarrow>
        canTrade pm m Buy amountUsdc balance =
          (\<lparr>allowed = False,
            reason = Some (BelowMinimumReserve (minUsdcReserve (riskLimits pm))),
            limits = None\<rparr>, []))
   \<and> (maxPositionSizeUsdc (riskLimits pm) = 4 \<and> minUsdcReserve (riskLimits pm) = 10 \<longrightarrow>
        reason (fst (canTrade
            (fst (recordBuy (fst (recordBuy pm m a1 2 p1 s1 y1 n1)) m a2 2 p2 s2 y2 n2))
            m Buy 2 8))
          = Some (BelowMinimumReserve 10))"
proof (intro conjI impI)
  show "(\<not> allowed (fst (canTrade pm m Buy amountUsdc balance))) =
     (binary64 (balance - amountUsdc) < minUsdcReserve (riskLimits pm)
     \<or> binary64 ((case map_of (positions pm) m of Some p \<Rightarrow> totalCostUsdc p | None \<Rightarrow> 0)
                   + amountUsdc)
          > maxPositionSizeUsdc (riskLimits pm)
     \<or> binary64 (foldl (\<lambda>sum c. binary64 (sum + c)) 0
                     (map (\<lambda>(k, p). totalCostUsdc p) (positions pm))
                   + amountUsdc)
          > maxTotalExposureUsdc (riskLimits pm)
     \<or> (map_of (positions pm) m = None
          \<and> of_nat (length (positions pm)) \<ge> maxOpenPositions (riskLimits pm)))"
    unfolding getTotalExposure_fold [symmetric]
    by (simp add: canTrade_def rejected_def Let_def getPosition_def)
next
  assume "binary64 (balance - amountUsdc) < minUsdcReserve (riskLimits pm)"
  then show "canTrade pm m Buy amountUsdc balance =
          (\<lparr>allowed = False,
            reason = Some (BelowMinimumReserve (minUsdcReserve (riskLimits pm))),
            limits = None\<rparr>, [])"
    by (simp add: canTrade_def rejected_def Let_def)
next
  assume lim: "maxPositionSizeUsdc (riskLimits pm) = 4 \<and> minUsdcReserve (riskLimits pm) = 10"
  define pm2 where
    "pm2 = fst (recordBuy (fst (recordBuy pm m a1 2 p1 s1 y1 n1)) m a2 2 p2 s2 y2 n2)"
  have "riskLimits pm2 = riskLimits pm"
    by (simp add: pm2_def riskLimits_recordBuy)
  with lim have "minUsdcReserve (riskLimits pm2) = 10" by simp
  then have "reason (fst (canTrade pm2 m Buy 2 8)) = Some (BelowMinimumReserve 10)"
    by (simp add: canTrade_def rejected_def Let_def binary64_amounts)
  then show "reason (fst (canTrade
            (fst (recordBuy (fst (recordBuy pm m a1 2 p1 s1 y1 n1)) m a2 2 p2 s2 y2 n2))
            m Buy 2 8))
          = Some (BelowMinimumReserve 10)"
    by (simp add: pm2_def)
qed

text \<open>
  The scenario at its ledger, with two buys of 2 USDC on the mint \<open>M\<close>: the third buy
  at balance 8 violates the reserve and the per-position limit, and the reason returned
  is the reserve. And at the ledger of four positions of 45 USDC each, a buy of 25 on a
  fifth mint with balance 1000 violates the exposure limit only (180 + 25 exceeds 200),
  and is rejected.
\<close>

theorem canTrade_buy_decision_rounded_witness:
  "(let pm2 = fst (recordBuy (fst (recordBuy scenarioLedger ''M'' 500 2 (2 / 500) ''s1'' None 0))
                     ''M'' 500 2 (2 / 500) ''s2'' None 1)
    in maxPositionSizeUsdc (riskLimits scenarioLedger) = 4
     \<and> minUsdcReserve (riskLimits scenarioLedger) = 10
     \<and> binary64 (8 - 2) < minUsdcReserve (riskLimits pm2)
     \<and> binary64 ((case map_of (positions pm2) ''M'' of Some p \<Rightarrow> totalCostUsdc p | None \<Rightarrow> 0)
                   + 2)
          > maxPositionSizeUsdc (riskLimits pm2)
     \<and> \<not> allowed (fst (canTrade pm2 ''M'' Buy 2 8))
     \<and> reason (fst (canTrade pm2 ''M'' Buy 2 8)) = Some (BelowMinimumReserve 10))
   \<and> (\<not> binary64 (1000 - 25) < minUsdcReserve (riskLimits fourHoldings)
     \<and> \<not> binary64 ((case map_of (positions fourHoldings) ''E'' of
                        Some p \<Rightarrow> totalCostUsdc p | None \<Rightarrow> 0) + 25)
            > maxPositionSizeUsdc (riskLimits fourHoldings)
     \<and> binary64 (foldl (\<lambda>sum c. binary64 (sum + c)) 0
                     (map (\<lambda>(k, p). totalCostUsdc p) (positions fourHoldings)) + 25)
          > maxTotalExposureUsdc (riskLimits fourHoldings)
     \<and> \<not> of_nat (length (positions fourHoldings)) \<ge> maxOpenPositions (riskLimits fourHoldings)
     \<and> \<not> allowed (fst (canTrade fourHoldings ''E'' Buy 25 1000))
     \<and> reason (fst (canTrade fourHoldings ''E'' Buy 25 1000))
          = Some (TotalExposureLimitReached 205 200))"
proof -
  define pm2 where
    "pm2 = fst (recordBuy (fst (recordBuy scenarioLedger ''M'' 500 2 (2 / 500) ''s1'' None 0))
                     ''M'' 500 2 (2 / 500) ''s2'' None 1)"
  have h: "maxPositionSizeUsdc (riskLimits scenarioLedger) = 4
           \<and> minUsdcReserve (riskLimits scenarioLedger) = 10"
    by (simp add: scenarioLedger_def)
  have r: "riskLimits pm2 = riskLimits scenarioLedger"
    by (simp add: pm2_def riskLimits_recordBuy)
  have c: "map_of (positions pm2) ''M'' = Some \<lparr>tokenMint = ''M'', symbol = None, amount = 1000,
             entryPrice = 4 / 1000, totalCostUsdc = 4, entryTime = 0,
             trades = [''s1'', ''s2''], buyCount = 2, sellCount = 0\<rparr>"
    by (simp add: pm2_def scenarioLedger_def recordBuy_def getPosition_def Let_def)
  have s: "reason (fst (canTrade pm2 ''M'' Buy 2 8)) = Some (BelowMinimumReserve 10)"
    using canTrade_buy_decision_rounded [where pm = scenarioLedger and m = "''M''"
        and ?a1.0 = 500 and ?p1.0 = "2 / 500" and ?s1.0 = "''s1''" and ?y1.0 = None
        and ?n1.0 = 0 and ?a2.0 = 500 and ?p2.0 = "2 / 500" and ?s2.0 = "''s2''"
        and ?y2.0 = None and ?n2.0 = 1] h
    by (simp add: pm2_def)
  have a: "\<not> allowed (fst (canTrade pm2 ''M'' Buy 2 8))"
    using canTrade_buy_decision_rounded [where pm = pm2 and m = "''M''" and amountUsdc = 2
        and balance = 8] r h by (simp add: binary64_amounts)
  have e: "foldl (\<lambda>sum c. binary64 (sum + c)) 0
             (map (\<lambda>(k, p). totalCostUsdc p) (positions fourHoldings)) = 180"
    by (simp add: fourHoldings_def holding_def binary64_amounts)
  have f: "\<not> allowed (fst (canTrade fourHoldings ''E'' Buy 25 1000))"
    using canTrade_buy_decision_rounded [where pm = fourHoldings and m = "''E''"
        and amountUsdc = 25 and balance = 1000] e
    by (simp add: binary64_amounts fourHoldings_def)
  have g: "reason (fst (canTrade fourHoldings ''E'' Buy 25 1000))
             = Some (TotalExposureLimitReached 205 200)"
    using getTotalExposure_fourHoldings
    by (simp add: canTrade_def rejected_def Let_def getPosition_def binary64_amounts
        fourHoldings_def)
  have first: "binary64 (8 - 2) < minUsdcReserve (riskLimits pm2)"
    using r h by (simp add: binary64_amounts)
  have second: "binary64 ((case map_of (positions pm2) ''M'' of
                   Some p \<Rightarrow> totalCostUsdc p | None \<Rightarrow> 0) + 2)
                 > maxPositionSizeUsdc (riskLimits pm2)"
    using r h c by (simp add: binary64_amounts)
  have third: "\<not> binary64 (1000 - 25) < minUsdcReserve (riskLimits fourHoldings)
     \<and> \<not> binary64 ((case map_of (positions fourHoldings) ''E'' of
                        Some p \<Rightarrow> totalCostUsdc p | None \<Rightarrow> 0) + 25)
            > maxPositionSizeUsdc (riskLimits fourHoldings)
     \<and> \<not> of_nat (length (positions fourHoldings)) \<ge> maxOpenPositions (riskLimits fourHoldings)"
    by (simp add: binary64_amounts fourHoldings_def)
  have fourth: "binary64 (foldl (\<lambda>sum c. binary64 (sum + c)) 0
                     (map (\<lambda>(k, p). totalCostUsdc p) (positions fourHoldings)) + 25)
          > maxTotalExposureUsdc (riskLimits fourHoldings)"
    unfolding e by (simp add: binary64_amounts fourHoldings_def)
  show ?thesis
    unfolding Let_def pm2_def [symmetric]
    using h first second a s third fourth f g by blast
qed

text \<open>
  C8. Starting from a ledger with no position for mint \<open>x\<close>, recording a buy of \<open>raw\<close>
  units for \<open>cost\<close> and then a sell of the same \<open>raw\<close> units for the same \<open>cost\<close>
  returns a realized profit of 0 (in USDC and in percent), emits \<open>position_closed\<close> and
  removes the position: the ledger is the one before the buy.
\<close>

theorem buy_then_sell_closes_at_zero:
  assumes "getPosition pm x = None" and "0 < raw" and "0 < cost"
  shows "(case recordBuy pm x raw cost px sig1 symb now of (pm1, ev1) \<Rightarrow>
           case recordSell pm1 x raw cost sig2 of (pm2, ev2, r) \<Rightarrow>
             r = Some (0, 0) \<and> getPosition pm2 x = None \<and> positions pm2 = positions pm \<and>
             (\<exists>p. ev2 = [POSITION_CLOSED p 0 0]))"
proof -
  have notin: "x \<notin> fst ` set (positions pm)"
    using assms(1) by (simp add: getPosition_def map_of_eq_None_iff)
  have del: "AList.delete x (AList.update x p (positions pm)) = positions pm" for p
    using notin by (simp add: delete_update_same)
  show ?thesis
    using assms del
    by (simp add: recordBuy_def recordSell_def getPosition_def Let_def update_conv')
qed

theorem buy_then_sell_closes_at_zero_witness:
  "(let pm = \<lparr>positions = [], riskLimits = \<lparr>maxPositionSizeUsdc = 50,
               maxTotalExposureUsdc = 200, maxOpenPositions = 10, minUsdcReserve = 10\<rparr>\<rparr>
    in getPosition pm ''M'' = None \<and> (0::int) < 46672314888 \<and> (0::rat) < 2 \<and>
       (case recordBuy pm ''M'' 46672314888 2 (2 / 46672314888) ''s1'' None 0 of (pm1, ev1) \<Rightarrow>
          case recordSell pm1 ''M'' 46672314888 2 ''s2'' of (pm2, ev2, r) \<Rightarrow>
            r = Some (0, 0) \<and> getPosition pm2 ''M'' = None \<and> positions pm2 = []))"
proof -
  define pm where "pm = \<lparr>positions = [], riskLimits = \<lparr>maxPositionSizeUsdc = 50,
               maxTotalExposureUsdc = 200, maxOpenPositions = 10, minUsdcReserve = 10\<rparr>\<rparr>"
  have h1: "getPosition pm ''M'' = None" by (simp add: pm_def getPosition_def)
  have h2: "(0::int) < 46672314888" by simp
  have h3: "(0::rat) < 2" by simp
  have p: "positions pm = []" by (simp add: pm_def)
  show ?thesis
    unfolding Let_def pm_def [symmetric]
    using buy_then_sell_closes_at_zero [OF h1 h2 h3, where px = "2 / 46672314888"
        and ?sig1.0 = "''s1''" and symb = None and now = 0 and ?sig2.0 = "''s2''"]
      h1 p
    by (auto split: prod.splits)
qed

text \<open>
  C1. The entry price stored by a buy is the total cost divided by the raw amount in
  smallest units; the ledger holds no decimals. A first copy of 2 USDC that buys 1000000
  raw units (one token of a mint with 6 decimals) stores 2 / 1000000, where the cost per
  UI unit is 2; a second identical buy stores the average 4 / 2000000, where the cost per
  UI unit is still 2.
\<close>

theorem recordBuy_entry_price_per_raw_unit:
  "(let pm0 = \<lparr>positions = [], riskLimits = \<lparr>maxPositionSizeUsdc = 50,
               maxTotalExposureUsdc = 200, maxOpenPositions = 10, minUsdcReserve = 10\<rparr>\<rparr>;
        pm1 = fst (processTrade_record pm0 Buy ''M'' 2 1000000 ''s1'' 0);
        pm2 = fst (processTrade_record pm1 Buy ''M'' 2 1000000 ''s2'' 1)
    in map (\<lambda>p. (entryPrice p, totalCostUsdc p / uiAmount 6 p)) (getPositions pm1)
         = [(2 / 1000000, 2)]
     \<and> map (\<lambda>p. (entryPrice p, totalCostUsdc p / uiAmount 6 p)) (getPositions pm2)
         = [(4 / 2000000, 2)]
     \<and> map (\<lambda>p. entryPrice p = totalCostUsdc p / of_int (amount p)) (getPositions pm2)
         = [True])"
  by (simp add: processTrade_record_def recordBuy_def getPosition_def getPositions_def
      uiAmount_def Let_def)

text \<open>
  The same for every buy that the copy engine records, on a new or on an existing
  position: the entry price stored is the total cost over the raw amount.
\<close>

lemma processTrade_record_buy_entry_price:
  "\<exists>p. getPosition (fst (processTrade_record pm Buy m usdc out sig now)) m = Some p
       \<and> entryPrice p = totalCostUsdc p / of_int (amount p)"
  by (cases "getPosition pm m")
     (simp_all add: processTrade_record_def recordBuy_def getPosition_def Let_def update_conv')

section \<open>Properties of the decoders\<close>

text \<open>
  C9. The size measured for a transaction can exceed the length of the buffer: the
  counts read inside the instruction loop are added to the offset without a comparison
  with the length, and the offset reached is returned as it is. For the legacy
  transaction cut after the account count of its instruction, 104 bytes long, the
  measurement answers 109.
\<close>

theorem measureTransactionSize_exceeds_buffer:
  "length truncatedLegacyTx = 104 \<and> measureTransactionSize truncatedLegacyTx = 109"
  unfolding truncatedLegacyTx_def by code_simp

text \<open>
  For comparison, the minimal versioned transaction of the unit tests is measured at its
  length.
\<close>

lemma measureTransactionSize_minimal_versioned:
  "length minimalVersionedTx = 136 \<and> measureTransactionSize minimalVersionedTx = 136"
  unfolding minimalVersionedTx_def by code_simp

lemma zeroScanPayload_count: "readU64 zeroScanPayload 0 = 1"
  unfolding zeroScanPayload_def by (simp add: readU64_def readU32_def byteOr0_def nth_append)

lemma zeroScanPayload_numHashes: "readU64 zeroScanPayload 8 = 7"
  unfolding zeroScanPayload_def by (simp add: readU64_def readU32_def byteOr0_def nth_append)

lemma zeroScanPayload_txCount: "readU64 zeroScanPayload 48 = 1"
  unfolding zeroScanPayload_def by (simp add: readU64_def readU32_def byteOr0_def nth_append)

lemma zeroScanPayload_hash: "slice zeroScanPayload 16 48 = replicate 32 0xAA"
  unfolding zeroScanPayload_def by code_simp

lemma zeroScanPayload_length: "length zeroScanPayload = 57"
  unfolding zeroScanPayload_def by simp

lemma zeroScanPayload_scan: "measureTransactionSize (drop 56 zeroScanPayload) = 0"
  unfolding zeroScanPayload_def by code_simp

lemma readTransactions_zero_scan:
  "measureTransactionSize (drop offset b) = 0 \<Longrightarrow>
   readTransactions b txCount offset txs = (txs, offset)"
  by (cases txCount) (simp_all add: Let_def)

lemma readEntries_error:
  "readEntries b n off es = Inl e \<Longrightarrow>
   \<exists>p. e = CannotReadTransactionVecLength p \<and> length b < p + 8"
proof (induction n arbitrary: off es)
  case 0
  then show ?case by simp
next
  case (Suc n)
  show ?case
  proof (cases "off + 8 + 32 + 8 > length b")
    case True
    with Suc.prems show ?thesis by (auto simp: Let_def)
  next
    case False
    with Suc.prems Suc.IH show ?thesis
      by (auto simp: Let_def split: prod.splits if_splits)
  qed
qed

text \<open>
  C4, as the claim states it, fails: the payload of one entry that announces one
  transaction and holds a byte for which the scan answers 0 is decoded without error,
  into one entry with no transaction.
\<close>

theorem deserializeEntries_zero_scan_counterexample:
  "readU64 zeroScanPayload 48 = 1 \<and> measureTransactionSize (drop 56 zeroScanPayload) = 0
   \<and> deserializeEntries zeroScanPayload
       = Inr [\<lparr>numHashes = 7, hash = replicate 32 0xAA, transactions = []\<rparr>]"
  using zeroScanPayload_count zeroScanPayload_numHashes zeroScanPayload_txCount
    zeroScanPayload_hash zeroScanPayload_length zeroScanPayload_scan
  by (simp add: deserializeEntries_def Let_def)

text \<open>
  C4, amended. When the scan of a transaction answers 0, the loop over the entry's
  transactions ends there: the entry keeps the transactions read so far, the offset
  stays where the scan began, and no error is raised. The only error of the entry
  decoder is a transaction-count field that does not fit in the buffer.
\<close>

theorem zero_length_scan_ends_entry_without_error:
  "(measureTransactionSize (drop offset b) = 0 \<longrightarrow>
      readTransactions b txCount offset txs = (txs, offset))
   \<and> (deserializeEntries b = Inl e \<longrightarrow>
      (\<exists>p. e = CannotReadTransactionVecLength p \<and> length b < p + 8))"
  using readTransactions_zero_scan readEntries_error
  by (auto simp: deserializeEntries_def)

theorem zero_length_scan_ends_entry_without_error_witness:
  "measureTransactionSize (drop 56 zeroScanPayload) = 0
   \<and> readTransactions zeroScanPayload 1 56 [] = ([], 56)
   \<and> deserializeEntries truncatedPayload = Inl (CannotReadTransactionVecLength 48)
   \<and> length truncatedPayload < 48 + 8"
proof -
  have h1: "measureTransactionSize (drop 56 zeroScanPayload) = 0"
    by (rule zeroScanPayload_scan)
  have h2: "deserializeEntries truncatedPayload = Inl (CannotReadTransactionVecLength 48)"
    unfolding truncatedPayload_def deserializeEntries_def
    by (simp add: readU64_def readU32_def byteOr0_def Let_def slice_def)
  have l: "length truncatedPayload = 8" by (simp add: truncatedPayload_def)
  show ?thesis
    using zero_length_scan_ends_entry_without_error
            [where offset = 56 and b = zeroScanPayload and txCount = 1 and txs = "[]"]
          zero_length_scan_ends_entry_without_error
            [where b = truncatedPayload and e = "CannotReadTransactionVecLength 48"] h1 h2 l
    by simp
qed

section \<open>Properties of the trade analyzer\<close>

lemmas digit_string_defs =
  uiDeltaString_def bigintToString_def natToString.simps sliceStringFrom_def sliceString_def
  relativeIndex_def padStart_def digitChar_def parseFloat_def isDigit_def digitsValue_def Let_def

text \<open>
  C5. For a mint with 0 decimals the UI delta is not the raw delta: \<open>slice(0, -0)\<close>
  is the empty string and \<open>slice(-0)\<close> the whole string, so the digits of the raw
  delta all land behind the point. A raw delta of 5 gives the string \<open>0.5\<close> and the
  UI delta 1/2, where \<open>5 / 10^0\<close> is 5.
\<close>

theorem uiDelta_zero_decimals_misplaced_point:
  "uiDeltaString 5 0 = ''0.5''
   \<and> extractTokenBalanceDeltas ticketMeta (Some ''Trader'')
       = [\<lparr>deltaMint = ''Ticket'', delta = 1 / 2, deltaRaw = 5, deltaDecimals = 0\<rparr>]
   \<and> (5::rat) / 10 ^ 0 = 5"
proof -
  have s: "uiDeltaString 5 0 = ''0.5''"
    by (simp add: digit_string_defs)
  have v: "parseFloat ''0.5'' = 1 / 2"
    by (simp add: digit_string_defs)
  have d: "extractTokenBalanceDeltas ticketMeta (Some ''Trader'')
       = [\<lparr>deltaMint = ''Ticket'', delta = 1 / 2, deltaRaw = 5, deltaDecimals = 0\<rparr>]"
    using s v
    by (simp add: extractTokenBalanceDeltas_def ticketMeta_def toDelta_def amountOf_def
        decimalsOf_def Let_def)
  show ?thesis using s d by simp
qed

text \<open>
  For a mint with at least one decimal the placement is right: the value of the string
  built is the raw delta divided by \<open>10^decimals\<close>.
\<close>

lemma digitChar_digit:
  assumes "d < 10"
  shows "isDigit (digitChar d)" and "of_char (digitChar d) - 48 = d"
    and "digitChar d \<noteq> CHR ''-''"
proof -
  from assms have "d \<in> {0, 1, 2, 3, 4, 5, 6, 7, 8, 9}" by auto
  then show "isDigit (digitChar d)" and "of_char (digitChar d) - 48 = d"
    and "digitChar d \<noteq> CHR ''-''"
    by (auto simp: digitChar_def isDigit_def)
qed

lemma digitsValue_snoc:
  "digitsValue (s @ [c]) = 10 * digitsValue s + (of_char c - 48)"
  by (simp add: digitsValue_def)

lemma foldl_digits_shift:
  "foldl (\<lambda>v c. 10 * v + (of_char c - 48)) a s
     = a * 10 ^ length s + foldl (\<lambda>v c. 10 * v + (of_char c - 48)) (0::nat) s"
proof (induction s arbitrary: a)
  case Nil
  then show ?case by simp
next
  case (Cons c s)
  have "foldl (\<lambda>v c. 10 * v + (of_char c - 48)) a (c # s)
          = (10 * a + (of_char c - 48)) * 10 ^ length s
            + foldl (\<lambda>v c. 10 * v + (of_char c - 48)) (0::nat) s"
    using Cons.IH [of "10 * a + (of_char c - 48)"] by simp
  moreover have "foldl (\<lambda>v c. 10 * v + (of_char c - 48)) (0::nat) (c # s)
          = (of_char c - 48) * 10 ^ length s
            + foldl (\<lambda>v c. 10 * v + (of_char c - 48)) (0::nat) s"
    using Cons.IH [of "of_char c - 48"] by simp
  ultimately show ?case by (simp add: algebra_simps)
qed

lemma digitsValue_append:
  "digitsValue (s @ t) = digitsValue s * 10 ^ length t + digitsValue t"
  using foldl_digits_shift [of "digitsValue s" t]
  by (simp add: digitsValue_def)

lemma digitsValue_zeros: "digitsValue (replicate k (CHR ''0'')) = 0"
  by (induction k) (simp_all add: digitsValue_def)

lemma natToString_digits:
  "natToString n \<noteq> [] \<and> (\<forall>c \<in> set (natToString n). isDigit c)
   \<and> digitsValue (natToString n) = n"
proof (induction n rule: natToString.induct)
  case (1 n)
  show ?case
  proof (cases "n < 10")
    case True
    then show ?thesis
      using digitChar_digit [of n]
      by (simp add: natToString.simps [of n] digitsValue_def)
  next
    case False
    have m: "n mod 10 < 10" by simp
    from False 1 have ih: "natToString (n div 10) \<noteq> []"
      "\<forall>c \<in> set (natToString (n div 10)). isDigit c"
      "digitsValue (natToString (n div 10)) = n div 10"
      by auto
    show ?thesis
      using False ih digitChar_digit [OF m]
      by (simp add: natToString.simps [of n] digitsValue_snoc)
  qed
qed

lemma digits_not_minus: "isDigit c \<Longrightarrow> c \<noteq> CHR ''-''" and digits_not_point: "isDigit c \<Longrightarrow> c \<noteq> CHR ''.''"
  by (auto simp: isDigit_def)

text \<open>The string built for a magnitude \<open>n\<close> and \<open>dec > 0\<close> decimals, and its value.\<close>

lemma placed_digits:
  assumes "0 < dec"
    and padded_def: "padded = padStart (natToString n) (dec + 1) (CHR ''0'')"
    and k_def: "k = length padded - dec"
  shows "sliceString padded 0 (- int dec) = take k padded"
    and "sliceStringFrom padded (- int dec) = drop k padded"
    and "take k padded \<noteq> []"
    and "length (drop k padded) = dec"
    and "\<forall>c \<in> set padded. isDigit c"
    and "digitsValue padded = n"
proof -
  have len: "dec + 1 \<le> length padded"
    by (simp add: padded_def padStart_def)
  have zero: "isDigit (CHR ''0'')" by (simp add: isDigit_def)
  show "sliceString padded 0 (- int dec) = take k padded"
    using len assms(1) by (simp add: sliceString_def relativeIndex_def k_def Let_def nat_diff_distrib')
  show "sliceStringFrom padded (- int dec) = drop k padded"
    using len assms(1) by (simp add: sliceStringFrom_def relativeIndex_def k_def nat_diff_distrib')
  show "take k padded \<noteq> []" using len by (auto simp: k_def)
  show "length (drop k padded) = dec" using len by (simp add: k_def)
  show "\<forall>c \<in> set padded. isDigit c"
    using natToString_digits [of n] zero by (auto simp: padded_def padStart_def)
  show "digitsValue padded = n"
    using natToString_digits [of n]
    by (simp add: padded_def padStart_def digitsValue_append digitsValue_zeros)
qed

lemma parseFloat_placed:
  assumes "\<forall>c \<in> set ip. isDigit c" and "\<forall>c \<in> set fp. isDigit c" and "ip \<noteq> []"
  shows "parseFloat (ip @ CHR ''.'' # fp)
           = of_nat (digitsValue (ip @ fp)) / 10 ^ length fp"
    and "parseFloat (CHR ''-'' # ip @ CHR ''.'' # fp)
           = - (of_nat (digitsValue (ip @ fp)) / 10 ^ length fp)"
proof -
  have point: "\<not> isDigit (CHR ''.'')" by (simp add: isDigit_def)
  have tw: "takeWhile isDigit (ip @ CHR ''.'' # fp) = ip"
    using assms(1) point by (simp add: takeWhile_tail)
  have dw: "dropWhile isDigit (ip @ CHR ''.'' # fp) = CHR ''.'' # fp"
    using assms(1) point by (simp add: dropWhile_append2)
  have fw: "takeWhile isDigit fp = fp"
    using assms(2) by (simp add: takeWhile_eq_all_conv)
  have neg: "(case ip @ CHR ''.'' # fp of [] \<Rightarrow> False | c # _ \<Rightarrow> c = CHR ''-'') = False"
    using assms(1,3) digits_not_minus by (cases ip) auto
  have val: "(of_nat (digitsValue ip) :: rat) + of_nat (digitsValue fp) / 10 ^ length fp
               = of_nat (digitsValue (ip @ fp)) / 10 ^ length fp"
    by (simp add: digitsValue_append field_simps)
  show "parseFloat (ip @ CHR ''.'' # fp) = of_nat (digitsValue (ip @ fp)) / 10 ^ length fp"
    unfolding parseFloat_def Let_def neg
    by (simp add: tw dw fw val)
  show "parseFloat (CHR ''-'' # ip @ CHR ''.'' # fp)
          = - (of_nat (digitsValue (ip @ fp)) / 10 ^ length fp)"
    unfolding parseFloat_def Let_def
    by (simp add: tw dw fw val)
qed

lemma uiDeltaString_parts:
  "uiDeltaString raw dec =
     (if raw < 0 then ''-'' else []) @
     (if sliceString (padStart (natToString (nat \<bar>raw\<bar>)) (dec + 1) (CHR ''0'')) 0 (- int dec) = []
      then ''0''
      else sliceString (padStart (natToString (nat \<bar>raw\<bar>)) (dec + 1) (CHR ''0'')) 0 (- int dec)) @
     ''.'' @
     sliceStringFrom (padStart (natToString (nat \<bar>raw\<bar>)) (dec + 1) (CHR ''0'')) (- int dec)"
proof (cases "raw < 0")
  case True
  have drop1: "sliceStringFrom (c # s) 1 = s" for c :: char and s
    by (simp add: sliceStringFrom_def relativeIndex_def)
  from True show ?thesis
    by (simp add: uiDeltaString_def bigintToString_def Let_def drop1)
next
  case False
  have first: "(case natToString n of [] \<Rightarrow> False | c # _ \<Rightarrow> c = CHR ''-'') = False" for n
    using natToString_digits [of n] digits_not_minus
    by (cases "natToString n") auto
  from False show ?thesis
    by (simp add: uiDeltaString_def bigintToString_def Let_def first)
qed

lemma uiDelta_with_decimals:
  assumes "0 < dec"
  shows "parseFloat (uiDeltaString raw dec) = of_int raw / 10 ^ dec"
proof -
  define n where "n = nat \<bar>raw\<bar>"
  define padded where "padded = padStart (natToString n) (dec + 1) (CHR ''0'')"
  define k where "k = length padded - dec"
  note pd = placed_digits [OF assms padded_def k_def]
  have ipd: "\<forall>c \<in> set (take k padded). isDigit c"
    and fpd: "\<forall>c \<in> set (drop k padded). isDigit c"
    using pd(5) by (auto dest: in_set_takeD in_set_dropD)
  note pf = parseFloat_placed [OF ipd fpd pd(3)]
  have v: "digitsValue (take k padded @ drop k padded) = n" using pd(6) by simp
  have "uiDeltaString raw dec =
     (if raw < 0 then ''-'' else []) @
     (if sliceString padded 0 (- int dec) = [] then ''0''
      else sliceString padded 0 (- int dec)) @ ''.'' @ sliceStringFrom padded (- int dec)"
    unfolding padded_def n_def by (rule uiDeltaString_parts)
  then have str: "uiDeltaString raw dec =
     (if raw < 0 then ''-'' else []) @ take k padded @ CHR ''.'' # drop k padded"
    using pd(1,2,3) by simp
  show ?thesis
  proof (cases "raw < 0")
    case True
    then show ?thesis
      using str pf(2) v pd(4) by (simp add: n_def)
  next
    case False
    then show ?thesis
      using str pf(1) v pd(4) by (simp add: n_def)
  qed
qed

lemma swapMeta_usdc_string: "uiDeltaString (- 2050000) 6 = ''-2.050000''"
  by (simp add: digit_string_defs)

lemma swapMeta_usdc_value: "parseFloat ''-2.050000'' = - (41 / 20)"
  by (simp add: digit_string_defs)

lemma swapMeta_token_value: "parseFloat (uiDeltaString 46672314888 6) = 46672314888 / 1000000"
  by (simp add: digit_string_defs)

lemma swapMeta_deltas:
  "extractTokenBalanceDeltas swapMeta (Some ''Trader'') =
     [\<lparr>deltaMint = USDC_MINT, delta = - (41 / 20), deltaRaw = - 2050000, deltaDecimals = 6\<rparr>,
      \<lparr>deltaMint = ''Moon'', delta = 46672314888 / 1000000, deltaRaw = 46672314888,
       deltaDecimals = 6\<rparr>]"
  using swapMeta_usdc_string swapMeta_usdc_value swapMeta_token_value
  by (simp add: extractTokenBalanceDeltas_def swapMeta_def USDC_MINT_def toDelta_def
      amountOf_def decimalsOf_def Let_def)

lemma swapTx_aggregator:
  "identifyAggregatorFromInstructions
     (getInstructions (transaction swapTx) (accountKeys swapTx)) = dflow"
  unfolding swapTx_def by code_simp

lemma swapTx_parsed:
  "parseTradeDetails swapEnv 5 swapTx (Some ''Trader'') [''Trader'', DFLOW_PROGRAM_ID]
     = Some \<lparr>tradeSignature = ''sig1'', tradeSlot = 1, direction = Buy,
              tradeTokenMint = ''Moon'', usdcAmount = 41 / 20, tokenAmount = 46672314888,
              userAddress = Some ''Trader'', aggregator = dflow, detectedAt = 5\<rparr>"
  using swapTx_aggregator swapMeta_deltas
  by (simp add: parseTradeDetails_def parseTradeDetailsFromBalanceDeltas_def Let_def
      swapEnv_def swapTx_def USDC_MINT_def)

lemma swapTx_resolvedKeys:
  "resolvedKeys swapEnv (analyzerWatching users) swapTx = ([''Trader'', DFLOW_PROGRAM_ID], [])"
  by (simp add: resolvedKeys_def swapTx_def analyzerWatching_def)

lemma swapTx_no_vote: "voteProgramId swapEnv \<notin> set (accountKeys swapTx)"
  by (simp add: swapEnv_def swapTx_def DFLOW_PROGRAM_ID_def)

lemma findTrackedUserFromKeys_None:
  "findTrackedUserFromKeys tracked keys = None \<longleftrightarrow> set keys \<inter> set tracked = {}"
  by (induction keys) auto

text \<open>
  C7, as the claim states it, fails for the empty watched set: no key of the swap of
  \<open>Trader\<close> is watched, since nothing is, and the analyzer emits the trade, taking the
  first static key for the user.
\<close>

theorem analyzeTransaction_empty_watchlist_counterexample:
  "trackedUsers (analyzerWatching []) = []
   \<and> set (fst (resolvedKeys swapEnv (analyzerWatching []) swapTx))
        \<inter> set (trackedUsers (analyzerWatching [])) = {}
   \<and> snd (analyzeTransaction swapEnv 5 (analyzerWatching []) swapTx) =
       [TRADE \<lparr>tradeSignature = ''sig1'', tradeSlot = 1, direction = Buy,
                tradeTokenMint = ''Moon'', usdcAmount = 41 / 20, tokenAmount = 46672314888,
                userAddress = Some ''Trader'', aggregator = dflow, detectedAt = 5\<rparr>]"
  using swapTx_resolvedKeys [of "[]"] swapTx_no_vote swapTx_parsed
  by (simp add: analyzeTransaction_def Let_def analyzerWatching_def userOrFirstKey_def
      swapTx_def)

text \<open>
  C7, amended. When the watched set is not empty, a transaction whose resolved account
  keys contain no watched address emits no trade event. (When the watched set is empty
  the analyzer goes on with the first static key as the user.)
\<close>

theorem no_trade_without_watched_key:
  assumes "trackedUsers ta \<noteq> []"
    and "set (fst (resolvedKeys env ta tx)) \<inter> set (trackedUsers ta) = {}"
  shows "snd (analyzeTransaction env now ta tx) = []"
  using assms
  by (auto simp: analyzeTransaction_def Let_def findTrackedUserFromKeys_None
      split: prod.splits)

theorem no_trade_without_watched_key_witness:
  "trackedUsers (analyzerWatching [''Watched'']) \<noteq> []
   \<and> set (fst (resolvedKeys swapEnv (analyzerWatching [''Watched'']) swapTx))
        \<inter> set (trackedUsers (analyzerWatching [''Watched''])) = {}
   \<and> snd (analyzeTransaction swapEnv 5 (analyzerWatching [''Watched'']) swapTx) = []"
proof -
  have h1: "trackedUsers (analyzerWatching [''Watched'']) \<noteq> []"
    by (simp add: analyzerWatching_def)
  have k: "fst (resolvedKeys swapEnv (analyzerWatching [''Watched'']) swapTx)
             = [''Trader'', DFLOW_PROGRAM_ID]"
    by (simp add: swapTx_resolvedKeys)
  have t: "trackedUsers (analyzerWatching [''Watched'']) = [''Watched'']"
    by (simp add: analyzerWatching_def)
  have h2: "set (fst (resolvedKeys swapEnv (analyzerWatching [''Watched'']) swapTx))
        \<inter> set (trackedUsers (analyzerWatching [''Watched''])) = {}"
    by (simp add: k t DFLOW_PROGRAM_ID_def)
  show ?thesis
    using h1 h2 no_trade_without_watched_key [OF h1 h2, of 5] by simp
qed

section \<open>Properties of the trade filter\<close>

text \<open>
  C2. When the request for the metadata fails, the filter does not answer
  \<open>filter_error\<close>: \<open>fetchDexScreenerData\<close> catches the failure and answers with a
  liquidity, volume and age of 0, and the filter rejects the trade for its liquidity.
  With the default limits and an empty cache, the trade in \<open>Moon\<close> is rejected with
  "low liquidity: 0 < 50000".
\<close>

theorem metadata_failure_rejects_for_liquidity:
  "fst (shouldCopyTrade failingApi 1000 defaultFilter ''Moon'' 2)
     = \<lparr>filterAllowed = False,
        filterReason = Some (LowLiquidity 0 50000),
        checks = Some \<lparr>liquidityCheck = Some (0, False), priceImpactCheck = None,
                        tokenAgeCheck = None, volume24hCheck = None,
                        recentPumpCheck = None\<rparr>\<rparr>"
  by (simp add: shouldCopyTrade_def getTokenMetadata_def fetchTokenMetadata_def
      fetchDexScreenerData_def failingApi_def defaultFilter_def noChecks_def Let_def)

text \<open>
  The same for every filter that is enabled and asks for some liquidity, every mint that
  is not whitelisted and has no fresh metadata in the cache; and \<open>filter_error\<close> is
  the answer of no call at all.
\<close>

lemma metadata_failure_rejects:
  assumes "enabled (config tf)" and "m \<notin> set (whitelist (config tf))"
    and "map_of (metadataCache tf) m = None"
    and "api m = RequestThrows" and "0 < minLiquidityUsdc (config tf)"
  shows "filterAllowed (fst (shouldCopyTrade api now tf m a)) = False
       \<and> filterReason (fst (shouldCopyTrade api now tf m a))
           = Some (LowLiquidity 0 (minLiquidityUsdc (config tf)))"
  using assms
  by (simp add: shouldCopyTrade_def getTokenMetadata_def fetchTokenMetadata_def
      fetchDexScreenerData_def Let_def)

lemma shouldCopyTrade_never_filter_error:
  "filterReason (fst (shouldCopyTrade api now tf m a)) \<noteq> Some filter_error"
  by (simp add: shouldCopyTrade_def Let_def split: prod.splits)

section \<open>Properties of the buy path\<close>

text \<open>
  C3. Two calls of \<open>buyToken\<close> for the same mint can take the same pre-built entry:
  \<open>txCache.delete\<close> runs after the \<open>await\<close> of the send, so a second call that starts
  while the first waits for its send reads the entry that the first has read. Both
  calls then send the same signed transaction and return its signature. (When the
  second call starts after the first has resumed, it finds no entry.)
\<close>

theorem buyToken_two_calls_take_same_entry:
  "map takenEntry (calls (runLoop twoBuys [Begin 0 1000, Begin 1 1001]))
     = [Some moonEntry, Some moonEntry]
   \<and> map (\<lambda>c. case c of Returned r \<Rightarrow> Some (swapSignature r) | _ \<Rightarrow> None)
        (calls (runLoop twoBuys
           [Begin 0 1000, Begin 1 1001, SendDone 0 SendResolves, SendDone 1 SendResolves]))
     = [Some ''presigned1'', Some ''presigned1'']
   \<and> calls (runLoop twoBuys [Begin 0 1000, SendDone 0 SendResolves, Begin 1 1001]) ! 1
     = OnDemand ''Moon'' 2"
  by (simp add: runLoop_def loopStep_def buyToken_begin_def buyToken_resume_def
      takenEntry_def twoBuys_def moonEntry_def)

section \<open>Properties of the exit manager\<close>


















end
